theory Spec2Isabelle
  imports Main
begin

section \<open>TRISA Global Directory Service: registration API and certificate pipeline\<close>

text \<open>
  A shallow embedding of \<^verbatim>\<open>pkg/gds/gds.go\<close>: the request validation helpers, the
  \<^verbatim>\<open>Register\<close>, \<^verbatim>\<open>Lookup\<close> and \<^verbatim>\<open>VerifyContact\<close> handlers, and the collaborators they
  call. Go strings are byte strings and are modelled as \<^typ>\<open>string\<close>; every error
  return and every nil dereference of the source is a value of the result type. The
  packages that the handlers call (the models, the store, the vault, the mailer) and the
  certificate manager are not among the sources; they are modelled from the
  specification, each where it is defined.
\<close>

subsection \<open>gRPC status errors\<close>

datatype code = InvalidArgument | NotFound | AlreadyExists | Aborted | FailedPrecondition | Internal

text \<open>
  A handler either answers with a status error (\<^verbatim>\<open>status.Error(code, msg)\<close>) or the Go
  runtime panics on a nil pointer dereference.
\<close>

datatype rpc_error = Status code string | Panic

subsection \<open>Byte classes\<close>

definition is_digit :: "char \<Rightarrow> bool" where
  "is_digit c = (48 \<le> (of_char c :: nat) \<and> (of_char c :: nat) \<le> 57)"

definition is_upper :: "char \<Rightarrow> bool" where
  "is_upper c = (65 \<le> (of_char c :: nat) \<and> (of_char c :: nat) \<le> 90)"

definition is_lower :: "char \<Rightarrow> bool" where
  "is_lower c = (97 \<le> (of_char c :: nat) \<and> (of_char c :: nat) \<le> 122)"

definition is_alnum :: "char \<Rightarrow> bool" where
  "is_alnum c = (is_lower c \<or> is_upper c \<or> is_digit c)"

subsection \<open>\<^verbatim>\<open>net.SplitHostPort\<close>\<close>

text \<open>
  The Go standard library function used by \<^verbatim>\<open>validateEndpoint\<close> and \<^verbatim>\<open>Register\<close>. The port
  starts after the last colon; a host in brackets must end just before that colon; a
  host without brackets may not contain a colon; no stray bracket may remain.
\<close>

datatype addr_error =
  MissingPort | TooManyColons | MissingCloseBracket | UnexpectedOpenBracket | UnexpectedCloseBracket

definition IndexByteString :: "string \<Rightarrow> char \<Rightarrow> nat option" where
  "IndexByteString s c = (if c \<in> set s then Some (length (takeWhile (\<lambda>x. x \<noteq> c) s)) else None)"

definition LastIndexByteString :: "string \<Rightarrow> char \<Rightarrow> nat option" where
  "LastIndexByteString s c =
     (if c \<in> set s then Some (length s - 1 - length (takeWhile (\<lambda>x. x \<noteq> c) (rev s))) else None)"

text \<open>The two closing checks of \<^verbatim>\<open>SplitHostPort\<close>, on \<^verbatim>\<open>hostport[j:]\<close> and \<^verbatim>\<open>hostport[k:]\<close>.\<close>

definition split_tail :: "string \<Rightarrow> string \<Rightarrow> nat \<Rightarrow> nat \<Rightarrow> nat \<Rightarrow> addr_error + (string \<times> string)" where
  "split_tail hostport host i j k =
     (if IndexByteString (drop j hostport) (CHR ''['') \<noteq> None then Inl UnexpectedOpenBracket
      else if IndexByteString (drop k hostport) (CHR '']'') \<noteq> None then Inl UnexpectedCloseBracket
      else Inr (host, drop (i + 1) hostport))"

definition SplitHostPort :: "string \<Rightarrow> addr_error + (string \<times> string)" where
  "SplitHostPort hostport =
     (case LastIndexByteString hostport (CHR '':'') of
        None \<Rightarrow> Inl MissingPort
      | Some i \<Rightarrow>
          if take 1 hostport = ''['' then
            (case IndexByteString hostport (CHR '']'') of
               None \<Rightarrow> Inl MissingCloseBracket
             | Some e \<Rightarrow>
                 if e + 1 = length hostport then Inl MissingPort
                 else if e + 1 = i then
                   split_tail hostport (drop 1 (take e hostport)) i 1 (e + 1)
                 else if hostport ! (e + 1) = CHR '':'' then Inl TooManyColons
                 else Inl MissingPort)
          else
            (let host = take i hostport in
             if IndexByteString host (CHR '':'') \<noteq> None then Inl TooManyColons
             else split_tail hostport host i 0 0))"

subsection \<open>\<^verbatim>\<open>strconv.Atoi\<close>\<close>

text \<open>
  The Go standard library parser on a 64-bit platform. A string of 1 to 18 bytes takes
  the fast path: an optional sign, then at least one byte, all of them decimal digits. Any
  other string goes through \<^verbatim>\<open>ParseInt\<close> and \<^verbatim>\<open>ParseUint\<close> in base 10, which read the bytes
  in order: a byte that is no digit is a syntax error, and a value that leaves the range
  of \<^verbatim>\<open>uint64\<close> while reading, or the range of \<^verbatim>\<open>int\<close> at the end, is a range error.
\<close>

datatype num_error = ErrSyntax | ErrRange

definition digit_val :: "char \<Rightarrow> int" where
  "digit_val c = of_char c - 48"

text \<open>The loop of the fast path.\<close>

fun fastDigits :: "string \<Rightarrow> int \<Rightarrow> num_error + int" where
  "fastDigits [] n = Inr n"
| "fastDigits (ch # cs) n =
     (if \<not> is_digit ch then Inl ErrSyntax else fastDigits cs (n * 10 + digit_val ch))"

text \<open>
  The loop of \<^verbatim>\<open>ParseUint\<close>: the cutoff is the least number whose tenfold exceeds the
  largest \<^verbatim>\<open>uint64\<close>.
\<close>

fun ParseUint_digits :: "string \<Rightarrow> int \<Rightarrow> num_error + int" where
  "ParseUint_digits [] n = Inr n"
| "ParseUint_digits (c # cs) n =
     (if \<not> is_digit c then Inl ErrSyntax
      else if n \<ge> 1844674407370955162 then Inl ErrRange
      else if n * 10 + digit_val c > 18446744073709551615 then Inl ErrRange
      else ParseUint_digits cs (n * 10 + digit_val c))"

definition ParseUint :: "string \<Rightarrow> num_error + int" where
  "ParseUint s = (if s = [] then Inl ErrSyntax else ParseUint_digits s 0)"

text \<open>
  \<^verbatim>\<open>ParseInt\<close> picks off the sign and checks the range of \<^verbatim>\<open>int\<close>. On a range error
  \<^verbatim>\<open>ParseUint\<close> returns the largest \<^verbatim>\<open>uint64\<close>, which fails that check with either sign.
\<close>

definition ParseInt :: "string \<Rightarrow> num_error + int" where
  "ParseInt s =
     (if s = [] then Inl ErrSyntax
      else
        (let neg = (take 1 s = ''-'');
             ds = (if take 1 s = ''+'' \<or> take 1 s = ''-'' then drop 1 s else s)
         in case ParseUint ds of
              Inl ErrSyntax \<Rightarrow> Inl ErrSyntax
            | Inl ErrRange \<Rightarrow> Inl ErrRange
            | Inr un \<Rightarrow>
                if \<not> neg \<and> un \<ge> 9223372036854775808 then Inl ErrRange
                else if neg \<and> un > 9223372036854775808 then Inl ErrRange
                else Inr (if neg then - un else un)))"

definition Atoi :: "string \<Rightarrow> num_error + int" where
  "Atoi s =
     (if 0 < length s \<and> length s < 19 then
        (let ds = (if take 1 s = ''-'' \<or> take 1 s = ''+'' then drop 1 s else s)
         in if length ds < 1 then Inl ErrSyntax
            else (case fastDigits ds 0 of
                    Inl err \<Rightarrow> Inl err
                  | Inr n \<Rightarrow> Inr (if take 1 s = ''-'' then - n else n)))
      else ParseInt s)"

subsection \<open>\<^verbatim>\<open>validateEndpoint\<close>\<close>

text \<open>The result is the error message, \<open>None\<close> for the \<^verbatim>\<open>nil\<close> error.\<close>

definition validateEndpoint :: "string \<Rightarrow> string option" where
  "validateEndpoint endpoint =
     (case SplitHostPort endpoint of
        Inl _ \<Rightarrow> Some ''unable to parse endpoint string''
      | Inr (host, port) \<Rightarrow>
          if host = [] then Some ''missing host in endpoint string''
          else if port = [] then Some ''missing port in endpoint string''
          else (case Atoi port of
                  Inl _ \<Rightarrow> Some ''endpoint port is not an integer''
                | Inr _ \<Rightarrow> None))"

subsection \<open>\<^verbatim>\<open>ValidateCommonName\<close>\<close>

text \<open>
  The pattern \<^verbatim>\<open>cnre\<close> is anchored at both ends and reads: a label, then any number of
  groups of a dot and a label. A label is one alphanumeric byte, or an alphanumeric
  byte, up to 61 alphanumeric bytes or hyphens, and an alphanumeric byte. No label
  contains a dot, so a string matches exactly when each of the pieces between its dots
  is a label.
\<close>

definition is_label :: "string \<Rightarrow> bool" where
  "is_label l =
     (l \<noteq> [] \<and> length l \<le> 63 \<and> is_alnum (hd l) \<and> is_alnum (last l)
      \<and> list_all (\<lambda>c. is_alnum c \<or> c = CHR ''-'') l)"

fun split_dots :: "string \<Rightarrow> string list" where
  "split_dots [] = [[]]"
| "split_dots (c # cs) =
     (if c = CHR ''.'' then [] # split_dots cs
      else (case split_dots cs of
              [] \<Rightarrow> [[c]]
            | l # ls \<Rightarrow> (c # l) # ls))"

definition cnre_MatchString :: "string \<Rightarrow> bool" where
  "cnre_MatchString name = list_all is_label (split_dots name)"

definition ValidateCommonName :: "string \<Rightarrow> string option" where
  "ValidateCommonName name =
     (if name = [] then Some ''common name should not be empty''
      else if take 1 name = ''*'' then Some ''wildcards are not allowed in TRISA common names''
      else if \<not> cnre_MatchString name
        then Some ''common name does not match domain name regular expression''
      else None)"

section \<open>Data model\<close>

subsection \<open>VASP records\<close>

text \<open>
  The verification states of the TRISA protocol buffers (\<^verbatim>\<open>pb.VerificationState\<close>), an
  enumeration ordered by its wire numbers; \<^verbatim>\<open>VerifyContact\<close> compares states with \<^verbatim>\<open>>\<close>.
\<close>

datatype VerificationState =
  NO_VERIFICATION | SUBMITTED | EMAIL_VERIFIED | PENDING_REVIEW | REVIEWED
  | ISSUING_CERTIFICATE | VERIFIED | REJECTED | APPEALED | ERRORED

fun state_number :: "VerificationState \<Rightarrow> nat" where
  "state_number NO_VERIFICATION = 0"
| "state_number SUBMITTED = 1"
| "state_number EMAIL_VERIFIED = 2"
| "state_number PENDING_REVIEW = 3"
| "state_number REVIEWED = 4"
| "state_number ISSUING_CERTIFICATE = 5"
| "state_number VERIFIED = 6"
| "state_number REJECTED = 7"
| "state_number APPEALED = 8"
| "state_number ERRORED = 9"

record EmailLogEntry =
  el_Timestamp :: string
  el_Reason :: string
  el_Recipient :: string

text \<open>
  The \<^verbatim>\<open>Extra\<close> field of a contact is a protocol buffer \<^verbatim>\<open>Any\<close>: it is nil, or it holds the
  directory's own contact data (the verification token, the verified flag and the send
  log), or it holds a message of another type, which the directory cannot decode.
\<close>

datatype ContactExtra =
  GDSContactExtraData (Token: string) (Verified: bool) (EmailLog: "EmailLogEntry list")
  | OtherContactMessage

record Contact =
  Name :: string
  Email :: string
  Phone :: string
  contact_Extra :: "ContactExtra option"

record Contacts =
  Technical :: "Contact option"
  Administrative :: "Contact option"
  Legal :: "Contact option"
  Billing :: "Contact option"

record LegalPerson =
  LegalName :: string
  CountryOfRegistration :: string

record AuditLogEntry =
  al_Timestamp :: string
  al_PreviousState :: VerificationState
  al_CurrentState :: VerificationState
  al_Description :: string
  al_Source :: string

text \<open>
  The \<^verbatim>\<open>Extra\<close> field of a VASP, an \<^verbatim>\<open>Any\<close> as well: the admin verification token, the
  audit log and the identifiers of the certificate requests.
\<close>

datatype VASPExtra =
  GDSExtraData (AdminVerificationToken: string) (AuditLog: "AuditLogEntry list")
    (CertificateRequests: "string list")
  | OtherVASPMessage

record VASP =
  vasp_Id :: string
  RegisteredDirectory :: string
  Entity :: "LegalPerson option"
  vasp_Contacts :: "Contacts option"
  TrisaEndpoint :: string
  CommonName :: string
  Website :: string
  BusinessCategory :: string
  VaspCategories :: "string list"
  EstablishedOn :: string
  Trixo :: "string option"
  VerificationStatus :: VerificationState
  Version :: nat
  IdentityCertificate :: "string option"
  SigningCertificates :: "string list"
  VerifiedOn :: string
  vasp_Extra :: "VASPExtra option"

subsection \<open>Certificate requests\<close>

datatype CertificateRequestState =
  INITIALIZED | READY_TO_SUBMIT | PROCESSING | DOWNLOADING | DOWNLOADED | COMPLETED
  | CR_REJECTED | CR_ERRORED

record CertificateRequestLogEntry =
  crl_Timestamp :: string
  crl_PreviousState :: CertificateRequestState
  crl_CurrentState :: CertificateRequestState
  crl_Description :: string
  crl_Source :: string

record CertificateRequest =
  cr_Id :: string
  cr_Vasp :: string
  cr_CommonName :: string
  cr_Profile :: string
  cr_Params :: "(string \<times> string) list"
  cr_AuthorityId :: int
  cr_BatchId :: int
  cr_BatchName :: string
  cr_BatchStatus :: string
  cr_OrderNumber :: int
  cr_CreationDate :: string
  cr_RejectReason :: string
  cr_Certificate :: string
  cr_Status :: CertificateRequestState
  cr_AuditLog :: "CertificateRequestLogEntry list"

subsection \<open>RPC messages\<close>

record RegisterRequest =
  req_Entity :: "LegalPerson option"
  req_Contacts :: "Contacts option"
  req_TrisaEndpoint :: string
  req_CommonName :: string
  req_Website :: string
  req_BusinessCategory :: string
  req_VaspCategories :: "string list"
  req_EstablishedOn :: string
  req_Trixo :: "string option"

record RegisterReply =
  reply_Id :: string
  reply_RegisteredDirectory :: string
  reply_CommonName :: string
  reply_Status :: VerificationState
  reply_Message :: string
  reply_Pkcs12Password :: string

record LookupRequest =
  lookup_Id :: string
  lookup_RegisteredDirectory :: string
  lookup_CommonName :: string

record LookupReply =
  lr_Id :: string
  lr_RegisteredDirectory :: string
  lr_CommonName :: string
  lr_Endpoint :: string
  lr_IdentityCertificate :: "string option"
  lr_Country :: string
  lr_VerifiedOn :: string
  lr_Name :: string
  lr_SigningCertificate :: "string option"

record VerifyContactRequest =
  vc_Id :: string
  vc_Token :: string

record VerifyContactReply =
  vcr_Status :: VerificationState
  vcr_Message :: string

subsection \<open>The service and what it talks to\<close>

text \<open>
  Each call to the store, the vault and the mailer may fail for a reason outside the
  program (a disk, a network). The environment says which call sites fail; a call site
  is named after the call and its place in the handler.
\<close>

datatype call_site =
  Register_CreateVASP | Register_UpdateVASP_tokens | Register_SendVerifyContacts
  | Register_UpdateVASP_emails | Register_CreateSecret | Register_AddSecretVersion
  | Register_UpdateCertReq | Register_UpdateVASP_certreq
  | Lookup_RetrieveVASP | Lookup_SearchVASPs
  | VerifyContact_RetrieveVASP | VerifyContact_UpdateVASP_contact
  | VerifyContact_UpdateVASP_token | VerifyContact_SendReviewRequest
  | VerifyContact_UpdateVASP_review

text \<open>
  The result of \<^verbatim>\<open>vasp.Validate(true)\<close>, a function of the TRISA library: no error, the
  error \<^verbatim>\<open>ivms101.ErrCompleteNationalIdentifierLegalPerson\<close> that \<^verbatim>\<open>Register\<close> ignores, or
  another error with its text.
\<close>

datatype validation = Valid | ErrCompleteNationalIdentifierLegalPerson | Invalid string

text \<open>
  The environment of a handler: the configuration, the library validation, the failing
  call sites, the random bytes that \<^verbatim>\<open>secrets.CreateToken\<close> draws, the identifiers that
  \<^verbatim>\<open>uuid.New\<close> returns and the clock.
\<close>

record env =
  DirectoryID :: string
  AdminEmail :: string
  Validate :: "VASP \<Rightarrow> validation"
  fails :: "call_site \<Rightarrow> bool"
  random :: "nat \<Rightarrow> nat"
  uuid :: "nat \<Rightarrow> string"
  now :: string

record Email_message =
  em_Reason :: string
  em_To :: string

text \<open>
  The state outside the handlers: the directory store (VASPs and certificate requests
  by identifier, in insertion order), the secret vault (the versions of each secret, by
  scope and name), the mails sent, and how many random bytes and identifiers have been
  drawn.
\<close>

record world =
  vasps :: "(string \<times> VASP) list"
  certreqs :: "(string \<times> CertificateRequest) list"
  secrets :: "((string \<times> string) \<times> string list) list"
  outbox :: "Email_message list"
  random_used :: nat
  uuid_used :: nat

section \<open>Collaborators of the handlers\<close>

subsection \<open>Tokens\<close>

definition token_alphabet :: string where
  "token_alphabet = ''abcdefghijklmnopqrstuvwxyzABCDEFGHIJKLMNOPQRSTUVWXYZ0123456789''"

text \<open>
  Modelled from the spec: \<^verbatim>\<open>secrets.CreateToken\<close> is not among the sources. The spec
  describes its result for a length \<open>n\<close> as \<open>n\<close> random bytes, ASCII-encoded; here each
  byte is a letter or a digit chosen by the next random number.
\<close>

definition CreateToken :: "env \<Rightarrow> world \<Rightarrow> nat \<Rightarrow> string \<times> world" where
  "CreateToken e w n =
     (map (\<lambda>i. token_alphabet ! (random e i mod 62)) [random_used w ..< random_used w + n],
      w\<lparr>random_used := random_used w + n\<rparr>)"

subsection \<open>The \<^verbatim>\<open>models\<close> package: extra data of VASPs and contacts\<close>

text \<open>
  Modelled from the spec: the package \<^verbatim>\<open>pkg/gds/models/v1\<close> is not among the sources. The
  spec describes the extra data as side tables of the VASP (certificate request
  identifiers, admin verification token, audit log) and of each contact (token,
  verified flag, send log), and an audit entry as the previous and the current state, the
  source, the reason and the time. A nil \<^verbatim>\<open>Extra\<close> reads as empty tables; an \<^verbatim>\<open>Extra\<close> of
  another message type cannot be decoded, which is the error these functions return.
\<close>

definition decodeVASPExtra :: "VASP \<Rightarrow> string + VASPExtra" where
  "decodeVASPExtra vasp =
     (case vasp_Extra vasp of
        None \<Rightarrow> Inr (GDSExtraData [] [] [])
      | Some OtherVASPMessage \<Rightarrow> Inl ''could not deserialize extra data''
      | Some (GDSExtraData t l c) \<Rightarrow> Inr (GDSExtraData t l c))"

definition GetAuditLog :: "VASP \<Rightarrow> string + AuditLogEntry list" where
  "GetAuditLog vasp =
     (case decodeVASPExtra vasp of Inl err \<Rightarrow> Inl err | Inr x \<Rightarrow> Inr (AuditLog x))"

definition GetAdminVerificationToken :: "VASP \<Rightarrow> string + string" where
  "GetAdminVerificationToken vasp =
     (case decodeVASPExtra vasp of Inl err \<Rightarrow> Inl err | Inr x \<Rightarrow> Inr (AdminVerificationToken x))"

definition GetCertReqIDs :: "VASP \<Rightarrow> string + string list" where
  "GetCertReqIDs vasp =
     (case decodeVASPExtra vasp of Inl err \<Rightarrow> Inl err | Inr x \<Rightarrow> Inr (CertificateRequests x))"

definition UpdateVerificationStatus ::
  "VASP \<Rightarrow> VerificationState \<Rightarrow> string \<Rightarrow> string \<Rightarrow> string \<Rightarrow> string + VASP" where
  "UpdateVerificationStatus vasp state description source ts =
     (case decodeVASPExtra vasp of
        Inl err \<Rightarrow> Inl err
      | Inr x \<Rightarrow>
          Inr (vasp\<lparr>VerificationStatus := state,
                    vasp_Extra := Some (GDSExtraData (AdminVerificationToken x)
                      (AuditLog x @ [\<lparr>al_Timestamp = ts,
                                      al_PreviousState = VerificationStatus vasp,
                                      al_CurrentState = state,
                                      al_Description = description,
                                      al_Source = source\<rparr>])
                      (CertificateRequests x))\<rparr>))"

definition SetAdminVerificationToken :: "VASP \<Rightarrow> string \<Rightarrow> string + VASP" where
  "SetAdminVerificationToken vasp token =
     (case decodeVASPExtra vasp of
        Inl err \<Rightarrow> Inl err
      | Inr x \<Rightarrow>
          Inr (vasp\<lparr>vasp_Extra := Some (GDSExtraData token (AuditLog x) (CertificateRequests x))\<rparr>))"

definition AppendCertReqID :: "VASP \<Rightarrow> string \<Rightarrow> string + VASP" where
  "AppendCertReqID vasp certreqID =
     (case decodeVASPExtra vasp of
        Inl err \<Rightarrow> Inl err
      | Inr x \<Rightarrow>
          Inr (vasp\<lparr>vasp_Extra := Some (GDSExtraData (AdminVerificationToken x) (AuditLog x)
                      (CertificateRequests x @ [certreqID]))\<rparr>))"

definition GetContactVerification :: "Contact \<Rightarrow> string + (string \<times> bool)" where
  "GetContactVerification contact =
     (case contact_Extra contact of
        None \<Rightarrow> Inr ([], False)
      | Some OtherContactMessage \<Rightarrow> Inl ''could not deserialize extra data''
      | Some (GDSContactExtraData t v l) \<Rightarrow> Inr (t, v))"

definition SetContactVerification :: "Contact option \<Rightarrow> string \<Rightarrow> bool \<Rightarrow> string + Contact" where
  "SetContactVerification contact token verified =
     (case contact of
        None \<Rightarrow> Inl ''cannot set verification on nil contact''
      | Some c \<Rightarrow>
          (case contact_Extra c of
             None \<Rightarrow> Inr (c\<lparr>contact_Extra := Some (GDSContactExtraData token verified [])\<rparr>)
           | Some OtherContactMessage \<Rightarrow> Inl ''could not deserialize previous extra''
           | Some (GDSContactExtraData t v l) \<Rightarrow>
               Inr (c\<lparr>contact_Extra := Some (GDSContactExtraData token verified l)\<rparr>)))"

definition AppendEmailLog :: "Contact \<Rightarrow> string \<Rightarrow> string \<Rightarrow> Contact" where
  "AppendEmailLog c reason ts =
     (let entry = \<lparr>el_Timestamp = ts, el_Reason = reason, el_Recipient = Email c\<rparr> in
      case contact_Extra c of
        None \<Rightarrow> c\<lparr>contact_Extra := Some (GDSContactExtraData [] False [entry])\<rparr>
      | Some OtherContactMessage \<Rightarrow> c
      | Some (GDSContactExtraData t v l) \<Rightarrow>
          c\<lparr>contact_Extra := Some (GDSContactExtraData t v (l @ [entry]))\<rparr>)"

subsection \<open>The contact iterator\<close>

datatype ContactKind = LegalContact | AdministrativeContact | TechnicalContact | BillingContact

fun getContact :: "Contacts \<Rightarrow> ContactKind \<Rightarrow> Contact option" where
  "getContact cs LegalContact = Legal cs"
| "getContact cs AdministrativeContact = Administrative cs"
| "getContact cs TechnicalContact = Technical cs"
| "getContact cs BillingContact = Billing cs"

fun setContact :: "Contacts \<Rightarrow> ContactKind \<Rightarrow> Contact option \<Rightarrow> Contacts" where
  "setContact cs LegalContact c = cs\<lparr>Legal := c\<rparr>"
| "setContact cs AdministrativeContact c = cs\<lparr>Administrative := c\<rparr>"
| "setContact cs TechnicalContact c = cs\<lparr>Technical := c\<rparr>"
| "setContact cs BillingContact c = cs\<lparr>Billing := c\<rparr>"

text \<open>
  Modelled from the spec: \<^verbatim>\<open>models.NewContactIterator\<close> is not among the sources. The
  spec fixes the order in which the contacts of a VASP are visited: legal,
  administrative, technical, billing. The iterator yields the contacts that are not nil;
  its two flags make it skip a contact without an email address and a contact whose
  address it has already yielded. The model yields the kinds of the contacts; a nil
  \<^verbatim>\<open>Contacts\<close> yields nothing.
\<close>

definition contactOrder :: "ContactKind list" where
  "contactOrder = [LegalContact, AdministrativeContact, TechnicalContact, BillingContact]"

fun iterate :: "Contacts \<Rightarrow> bool \<Rightarrow> bool \<Rightarrow> string list \<Rightarrow> ContactKind list \<Rightarrow> ContactKind list" where
  "iterate cs skipNoEmail skipDuplicates seen [] = []"
| "iterate cs skipNoEmail skipDuplicates seen (k # ks) =
     (case getContact cs k of
        None \<Rightarrow> iterate cs skipNoEmail skipDuplicates seen ks
      | Some c \<Rightarrow>
          if skipNoEmail \<and> Email c = [] then iterate cs skipNoEmail skipDuplicates seen ks
          else if skipDuplicates \<and> Email c \<in> set seen
            then iterate cs skipNoEmail skipDuplicates seen ks
          else k # iterate cs skipNoEmail skipDuplicates (Email c # seen) ks)"

definition NewContactIterator :: "Contacts option \<Rightarrow> bool \<Rightarrow> bool \<Rightarrow> ContactKind list" where
  "NewContactIterator contacts skipNoEmail skipDuplicates =
     (case contacts of
        None \<Rightarrow> []
      | Some cs \<Rightarrow> iterate cs skipNoEmail skipDuplicates [] contactOrder)"

subsection \<open>The directory store\<close>

fun put :: "'k \<Rightarrow> 'v \<Rightarrow> ('k \<times> 'v) list \<Rightarrow> ('k \<times> 'v) list" where
  "put k v [] = [(k, v)]"
| "put k v ((k', v') # kvs) = (if k = k' then (k, v) # kvs else (k', v') # put k v kvs)"

text \<open>
  Modelled from the spec: the store (\<^verbatim>\<open>pkg/gds/store\<close>) is not among the sources. The spec
  describes it as an abstract key/value store with secondary indices and atomic
  single-record writes; \<^verbatim>\<open>CreateVASP\<close> gives the record a fresh identifier and refuses a
  common name that another record has; \<^verbatim>\<open>SearchVASPs\<close> returns the records whose indexed
  value is one of the candidates, for every key of the query.
\<close>

definition CreateVASP :: "env \<Rightarrow> call_site \<Rightarrow> world \<Rightarrow> VASP \<Rightarrow> (string + string) \<times> world" where
  "CreateVASP e site w vasp =
     (if fails e site then (Inl ''store unavailable'', w)
      else if vasp_Id vasp \<noteq> [] then (Inl ''cannot create a VASP that has an ID'', w)
      else if CommonName vasp \<in> set (map (\<lambda>kv. CommonName (snd kv)) (vasps w))
        then (Inl ''duplicate common name'', w)
      else
        (let ident = uuid e (uuid_used w) in
         (Inr ident, w\<lparr>vasps := put ident (vasp\<lparr>vasp_Id := ident\<rparr>) (vasps w),
                        uuid_used := uuid_used w + 1\<rparr>)))"

definition RetrieveVASP :: "env \<Rightarrow> call_site \<Rightarrow> world \<Rightarrow> string \<Rightarrow> string + VASP" where
  "RetrieveVASP e site w ident =
     (if fails e site then Inl ''store unavailable''
      else (case map_of (vasps w) ident of
              None \<Rightarrow> Inl ''entity not found''
            | Some vasp \<Rightarrow> Inr vasp))"

definition UpdateVASP :: "env \<Rightarrow> call_site \<Rightarrow> world \<Rightarrow> VASP \<Rightarrow> string option \<times> world" where
  "UpdateVASP e site w vasp =
     (if fails e site then (Some ''store unavailable'', w)
      else if vasp_Id vasp = [] then (Some ''record has no ID'', w)
      else (None, w\<lparr>vasps := put (vasp_Id vasp) vasp (vasps w)\<rparr>))"

definition UpdateCertReq ::
  "env \<Rightarrow> call_site \<Rightarrow> world \<Rightarrow> CertificateRequest \<Rightarrow> string option \<times> world" where
  "UpdateCertReq e site w r =
     (if fails e site then (Some ''store unavailable'', w)
      else if cr_Id r = [] then (Some ''record has no ID'', w)
      else (None, w\<lparr>certreqs := put (cr_Id r) r (certreqs w)\<rparr>))"

definition indexed_values :: "VASP \<Rightarrow> string \<Rightarrow> string list" where
  "indexed_values vasp key =
     (if key = ''name'' then [CommonName vasp]
      else if key = ''website'' then [Website vasp]
      else if key = ''country''
        then (case Entity vasp of None \<Rightarrow> [] | Some p \<Rightarrow> [CountryOfRegistration p])
      else if key = ''category'' then BusinessCategory vasp # VaspCategories vasp
      else [])"

definition SearchVASPs ::
  "env \<Rightarrow> call_site \<Rightarrow> world \<Rightarrow> (string \<times> string list) list \<Rightarrow> string + VASP list" where
  "SearchVASPs e site w query =
     (if fails e site then Inl ''store unavailable''
      else Inr (filter (\<lambda>vasp. list_all (\<lambda>kc. list_ex (\<lambda>x. x \<in> set (snd kc))
                                             (indexed_values vasp (fst kc))) query)
                  (map snd (vasps w))))"

subsection \<open>The secret vault\<close>

text \<open>
  Modelled from the spec: the vault (\<^verbatim>\<open>pkg/gds/secrets\<close>) is not among the sources. The spec
  gives its contract: creating a secret is idempotent on scope and name, adding a version
  always appends, and the latest version is not found when there is none.
\<close>

definition CreateSecret :: "env \<Rightarrow> call_site \<Rightarrow> world \<Rightarrow> string \<Rightarrow> string \<Rightarrow> string option \<times> world" where
  "CreateSecret e site w scope secretType =
     (if fails e site then (Some ''vault unavailable'', w)
      else (case map_of (secrets w) (scope, secretType) of
              Some versions \<Rightarrow> (None, w)
            | None \<Rightarrow> (None, w\<lparr>secrets := put (scope, secretType) [] (secrets w)\<rparr>)))"

definition AddSecretVersion ::
  "env \<Rightarrow> call_site \<Rightarrow> world \<Rightarrow> string \<Rightarrow> string \<Rightarrow> string \<Rightarrow> string option \<times> world" where
  "AddSecretVersion e site w scope secretType payload =
     (if fails e site then (Some ''vault unavailable'', w)
      else (case map_of (secrets w) (scope, secretType) of
              None \<Rightarrow> (Some ''secret not found'', w)
            | Some versions \<Rightarrow>
                (None, w\<lparr>secrets := put (scope, secretType) (versions @ [payload]) (secrets w)\<rparr>)))"

definition GetLatestVersion :: "world \<Rightarrow> string \<Rightarrow> string \<Rightarrow> string + string" where
  "GetLatestVersion w scope secretType =
     (case map_of (secrets w) (scope, secretType) of
        None \<Rightarrow> Inl ''secret not found''
      | Some versions \<Rightarrow> if versions = [] then Inl ''secret not found'' else Inr (last versions))"

subsection \<open>The mailer\<close>

text \<open>
  Modelled from the spec: the mailer (\<^verbatim>\<open>pkg/gds/emails\<close>) is not among the sources. The
  spec says that \<^verbatim>\<open>SendVerifyContacts\<close> visits the contacts in the fixed order, mails the
  unverified ones, appends an entry to the send log of each and returns the number of
  mails sent, and that the review request is the one mail to the administrators. A
  call that fails sends nothing.
\<close>

definition unverified :: "Contacts \<Rightarrow> ContactKind \<Rightarrow> bool" where
  "unverified cs k =
     (case getContact cs k of
        None \<Rightarrow> False
      | Some c \<Rightarrow> (case GetContactVerification c of Inl err \<Rightarrow> False | Inr tv \<Rightarrow> \<not> snd tv))"

definition logVerifyContact :: "string \<Rightarrow> ContactKind \<Rightarrow> Contacts \<Rightarrow> Contacts" where
  "logVerifyContact ts k cs =
     (case getContact cs k of
        None \<Rightarrow> cs
      | Some c \<Rightarrow> setContact cs k (Some (AppendEmailLog c ''verify_contact'' ts)))"

definition SendVerifyContacts ::
  "env \<Rightarrow> call_site \<Rightarrow> world \<Rightarrow> VASP \<Rightarrow> (nat \<times> string option) \<times> VASP \<times> world" where
  "SendVerifyContacts e site w vasp =
     (if fails e site then ((0, Some ''could not send mail''), vasp, w)
      else (case vasp_Contacts vasp of
              None \<Rightarrow> ((0, None), vasp, w)
            | Some cs \<Rightarrow>
                (let ks = filter (unverified cs) (NewContactIterator (Some cs) True False) in
                 ((length ks, None),
                  vasp\<lparr>vasp_Contacts := Some (fold (logVerifyContact (now e)) ks cs)\<rparr>,
                  w\<lparr>outbox := outbox w
                       @ map (\<lambda>k. \<lparr>em_Reason = ''verify_contact'',
                                    em_To = (case getContact cs k of None \<Rightarrow> [] | Some c \<Rightarrow> Email c)\<rparr>)
                           ks\<rparr>))))"

definition SendReviewRequest ::
  "env \<Rightarrow> call_site \<Rightarrow> world \<Rightarrow> VASP \<Rightarrow> (nat \<times> string option) \<times> world" where
  "SendReviewRequest e site w vasp =
     (if fails e site then ((0, Some ''could not send mail''), w)
      else ((1, None),
            w\<lparr>outbox := outbox w @ [\<lparr>em_Reason = ''review_request'', em_To = AdminEmail e\<rparr>]\<rparr>))"

subsection \<open>The \<^verbatim>\<open>models\<close> package: certificate requests\<close>

text \<open>
  Modelled from the spec: \<^verbatim>\<open>models.NewCertificateRequest\<close> and
  \<^verbatim>\<open>models.UpdateCertificateRequestStatus\<close> are not among the sources. The spec says that a
  certificate request is created in \<^verbatim>\<open>INITIALIZED\<close> for a VASP, with an identifier of its
  own, the identifier of the VASP and its common name, and that every transition sets
  the status and appends one audit entry with the previous and the current state, the
  actor and the reason.
\<close>

definition NewCertificateRequest ::
  "env \<Rightarrow> world \<Rightarrow> VASP \<Rightarrow> (string + CertificateRequest) \<times> world" where
  "NewCertificateRequest e w vasp =
     (Inr \<lparr>cr_Id = uuid e (uuid_used w), cr_Vasp = vasp_Id vasp, cr_CommonName = CommonName vasp,
           cr_Profile = [], cr_Params = [], cr_AuthorityId = 0, cr_BatchId = 0,
           cr_BatchName = [], cr_BatchStatus = [], cr_OrderNumber = 0, cr_CreationDate = [],
           cr_RejectReason = [], cr_Certificate = [], cr_Status = INITIALIZED,
           cr_AuditLog = []\<rparr>,
      w\<lparr>uuid_used := uuid_used w + 1\<rparr>)"

definition UpdateCertificateRequestStatus ::
  "CertificateRequest \<Rightarrow> CertificateRequestState \<Rightarrow> string \<Rightarrow> string \<Rightarrow> string
     \<Rightarrow> string + CertificateRequest" where
  "UpdateCertificateRequestStatus r state description source ts =
     Inr (r\<lparr>cr_Status := state,
             cr_AuditLog := cr_AuditLog r @ [\<lparr>crl_Timestamp = ts,
                                             crl_PreviousState = cr_Status r,
                                             crl_CurrentState = state,
                                             crl_Description = description,
                                             crl_Source = source\<rparr>]\<rparr>)"

section \<open>The handlers of \<^verbatim>\<open>gds.go\<close>\<close>

subsection \<open>\<^verbatim>\<open>getContactEmail\<close>\<close>

definition vaspContact :: "VASP \<Rightarrow> ContactKind \<Rightarrow> Contact option" where
  "vaspContact vasp k = (case vasp_Contacts vasp of None \<Rightarrow> None | Some cs \<Rightarrow> getContact cs k)"

definition setVaspContact :: "VASP \<Rightarrow> ContactKind \<Rightarrow> Contact \<Rightarrow> VASP" where
  "setVaspContact vasp k c =
     (case vasp_Contacts vasp of
        None \<Rightarrow> vasp
      | Some cs \<Rightarrow> vasp\<lparr>vasp_Contacts := Some (setContact cs k (Some c))\<rparr>)"

definition getContactEmail :: "VASP \<Rightarrow> string" where
  "getContactEmail vasp =
     (case NewContactIterator (vasp_Contacts vasp) True False of
        [] \<Rightarrow> []
      | k # ks \<Rightarrow> (case vaspContact vasp k of None \<Rightarrow> [] | Some contact \<Rightarrow> Email contact))"

subsection \<open>\<^verbatim>\<open>Register\<close>\<close>

text \<open>\<^verbatim>\<open>Contact.IsZero\<close> of the TRISA library: no field of the contact is set.\<close>

definition IsZero :: "Contact \<Rightarrow> bool" where
  "IsZero c = (Name c = [] \<and> Email c = [] \<and> Phone c = [] \<and> contact_Extra c = None)"

definition nilIfZero :: "Contact option \<Rightarrow> Contact option" where
  "nilIfZero c = (case c of None \<Rightarrow> None | Some x \<Rightarrow> if IsZero x then None else Some x)"

text \<open>Lines 115 to 128: the VASP built from the request.\<close>

definition newVASP :: "env \<Rightarrow> RegisterRequest \<Rightarrow> VASP" where
  "newVASP e rin =
     \<lparr>vasp_Id = [], RegisteredDirectory = DirectoryID e, Entity = req_Entity rin,
      vasp_Contacts = req_Contacts rin, TrisaEndpoint = req_TrisaEndpoint rin,
      CommonName = req_CommonName rin, Website = req_Website rin,
      BusinessCategory = req_BusinessCategory rin, VaspCategories = req_VaspCategories rin,
      EstablishedOn = req_EstablishedOn rin, Trixo = req_Trixo rin,
      VerificationStatus = NO_VERIFICATION, Version = 1, IdentityCertificate = None,
      SigningCertificates = [], VerifiedOn = [], vasp_Extra = None\<rparr>"

text \<open>
  Lines 141 to 153: the common name is the host of the endpoint when the request has
  none, and is validated when the request has one.
\<close>

definition registerCommonName :: "RegisterRequest \<Rightarrow> VASP \<Rightarrow> rpc_error + VASP" where
  "registerCommonName rin vasp =
     (if CommonName vasp = [] then
        (case SplitHostPort (req_TrisaEndpoint rin) of
           Inl err \<Rightarrow>
             Inl (Status InvalidArgument
                    ''no common name supplied, could not parse common name from endpoint'')
         | Inr hp \<Rightarrow> Inr (vasp\<lparr>CommonName := fst hp\<rparr>))
      else if ValidateCommonName (CommonName vasp) \<noteq> None
        then Inl (Status InvalidArgument ''invalid common name supplied'')
      else Inr vasp)"

text \<open>
  Lines 115 to 190, before anything is written: the checks of the request, the removal
  of the zero contacts, the contact email and the status \<^verbatim>\<open>SUBMITTED\<close>. The result is the
  VASP to register and the email address that the audit entries name.
\<close>

definition registerValidate :: "env \<Rightarrow> RegisterRequest \<Rightarrow> rpc_error + (VASP \<times> string)" where
  "registerValidate e rin =
     (if req_TrisaEndpoint rin = [] then Inl (Status InvalidArgument ''no endpoint supplied'')
      else if validateEndpoint (req_TrisaEndpoint rin) \<noteq> None
        then Inl (Status InvalidArgument ''invalid endpoint supplied'')
      else
        (case registerCommonName rin (newVASP e rin) of
           Inl err \<Rightarrow> Inl err
         | Inr vasp \<Rightarrow>
             (case Validate e vasp of
                Invalid msg \<Rightarrow> Inl (Status InvalidArgument (''validation error: '' @ msg))
              | _ \<Rightarrow>
                  (case vasp_Contacts vasp of
                     None \<Rightarrow> Inl Panic
                   | Some cs \<Rightarrow>
                       (let cs1 = cs\<lparr>Administrative := nilIfZero (Administrative cs)\<rparr>;
                            cs2 = cs1\<lparr>Technical := nilIfZero (Technical cs1)\<rparr>;
                            cs3 = cs2\<lparr>Billing := nilIfZero (Billing cs2)\<rparr>;
                            cs4 = cs3\<lparr>Legal := nilIfZero (Legal cs3)\<rparr>;
                            vasp1 = vasp\<lparr>vasp_Contacts := Some cs4\<rparr>;
                            email = getContactEmail vasp1
                        in if email = []
                           then Inl (Status InvalidArgument
                                       ''no email address in supplied VASP contacts'')
                           else
                             (case UpdateVerificationStatus vasp1 SUBMITTED
                                     ''register request recevied'' email (now e) of
                                Inl err \<Rightarrow>
                                  Inl (Status Aborted ''could not add new entry to VASP audit log'')
                              | Inr vasp2 \<Rightarrow> Inr (vasp2, email)))))))"

text \<open>Lines 209 to 216: a fresh token of 48 bytes for each contact with an email address.\<close>

fun setContactTokens :: "env \<Rightarrow> ContactKind list \<Rightarrow> VASP \<Rightarrow> world \<Rightarrow> (string + VASP) \<times> world" where
  "setContactTokens e [] vasp w = (Inr vasp, w)"
| "setContactTokens e (k # ks) vasp w =
     (let tw = CreateToken e w 48 in
      case SetContactVerification (vaspContact vasp k) (fst tw) False of
        Inl err \<Rightarrow> (Inl err, snd tw)
      | Inr c \<Rightarrow> setContactTokens e ks (setVaspContact vasp k c) (snd tw))"

text \<open>
  Lines 192 to 237: the VASP is created in the store, its contacts get their tokens, it
  is saved, the verification mails are sent and, when they were, it is saved again with
  the send logs.
\<close>

definition registerStore :: "env \<Rightarrow> world \<Rightarrow> VASP \<Rightarrow> (rpc_error + VASP) \<times> world" where
  "registerStore e w vasp =
     (case CreateVASP e Register_CreateVASP w vasp of
        (Inl err, w1) \<Rightarrow>
          (Inl (Status AlreadyExists
                  ''could not complete registration, uniqueness constraints violated''), w1)
      | (Inr ident, w1) \<Rightarrow>
          (let vasp1 = vasp\<lparr>vasp_Id := ident\<rparr> in
           case setContactTokens e (NewContactIterator (vasp_Contacts vasp1) True False) vasp1 w1 of
             (Inl err, w2) \<Rightarrow>
               (Inl (Status Aborted ''could not send contact verification emails''), w2)
           | (Inr vasp2, w2) \<Rightarrow>
               (case UpdateVASP e Register_UpdateVASP_tokens w2 vasp2 of
                  (Some err, w3) \<Rightarrow>
                    (Inl (Status Aborted ''could not send contact verification emails''), w3)
                | (None, w3) \<Rightarrow>
                    (case SendVerifyContacts e Register_SendVerifyContacts w3 vasp2 of
                       ((sent, Some err), vasp3, w4) \<Rightarrow> (Inr vasp3, w4)
                     | ((sent, None), vasp3, w4) \<Rightarrow>
                         (case UpdateVASP e Register_UpdateVASP_emails w4 vasp3 of
                            (Some err, w5) \<Rightarrow>
                              (Inl (Status Aborted ''could not update vasp record''), w5)
                          | (None, w5) \<Rightarrow> (Inr vasp3, w5))))))"

definition internalError :: rpc_error where
  "internalError = Status Internal ''internal error with registration, please contact admins''"

text \<open>
  Lines 239 to 289: the PKCS12 password and the certificate request, the secret in the
  vault, the request in the store, its identifier on the VASP, and the reply.
\<close>

definition registerCertificateRequest ::
  "env \<Rightarrow> world \<Rightarrow> VASP \<Rightarrow> string \<Rightarrow> (rpc_error + RegisterReply) \<times> world" where
  "registerCertificateRequest e w vasp email =
     (let pw = CreateToken e w 16; password = fst pw in
      case NewCertificateRequest e (snd pw) vasp of
        (Inl err, w1) \<Rightarrow> (Inl internalError, w1)
      | (Inr certRequest0, w1) \<Rightarrow>
          (case UpdateCertificateRequestStatus certRequest0 INITIALIZED
                  ''created certificate request'' email (now e) of
             Inl err \<Rightarrow> (Inl internalError, w1)
           | Inr certRequest \<Rightarrow>
               (case CreateSecret e Register_CreateSecret w1 (cr_Id certRequest) ''password'' of
                  (Some err, w2) \<Rightarrow> (Inl internalError, w2)
                | (None, w2) \<Rightarrow>
                    (case AddSecretVersion e Register_AddSecretVersion w2 (cr_Id certRequest)
                            ''password'' password of
                       (Some err, w3) \<Rightarrow> (Inl internalError, w3)
                     | (None, w3) \<Rightarrow>
                         (case UpdateCertReq e Register_UpdateCertReq w3 certRequest of
                            (Some err, w4) \<Rightarrow> (Inl internalError, w4)
                          | (None, w4) \<Rightarrow>
                              (case AppendCertReqID vasp (cr_Id certRequest) of
                                 Inl err \<Rightarrow> (Inl internalError, w4)
                               | Inr vasp1 \<Rightarrow>
                                   (case UpdateVASP e Register_UpdateVASP_certreq w4 vasp1 of
                                      (Some err, w5) \<Rightarrow> (Inl internalError, w5)
                                    | (None, w5) \<Rightarrow>
                                        (Inr \<lparr>reply_Id = vasp_Id vasp1,
                                              reply_RegisteredDirectory = RegisteredDirectory vasp1,
                                              reply_CommonName = CommonName vasp1,
                                              reply_Status = VerificationStatus vasp1,
                                              reply_Message = ''a verification code has been sent to contact emails, please check spam folder if it has not arrived; pkcs12 password attached, this is the only time it will be available -- do not lose!'',
                                              reply_Pkcs12Password = password\<rparr>, w5))))))))"

definition Register :: "env \<Rightarrow> world \<Rightarrow> RegisterRequest \<Rightarrow> (rpc_error + RegisterReply) \<times> world" where
  "Register e w rin =
     (case registerValidate e rin of
        Inl err \<Rightarrow> (Inl err, w)
      | Inr ve \<Rightarrow>
          (case registerStore e w (fst ve) of
             (Inl err, w1) \<Rightarrow> (Inl err, w1)
           | (Inr vasp, w1) \<Rightarrow> registerCertificateRequest e w1 vasp (snd ve)))"

subsection \<open>\<^verbatim>\<open>Lookup\<close>\<close>

text \<open>\<^verbatim>\<open>vasp.Name()\<close> of the TRISA library, with its error ignored as the handler does.\<close>

definition VASP_Name :: "VASP \<Rightarrow> string" where
  "VASP_Name vasp = (case Entity vasp of None \<Rightarrow> [] | Some p \<Rightarrow> LegalName p)"

text \<open>
  Lines 326 to 348: the reply built from the VASP. The country is read through the
  entity, so a VASP without an entity makes the handler panic.
\<close>

definition lookupReply :: "VASP \<Rightarrow> rpc_error + LookupReply" where
  "lookupReply vasp =
     (case Entity vasp of
        None \<Rightarrow> Inl Panic
      | Some p \<Rightarrow>
          Inr \<lparr>lr_Id = vasp_Id vasp, lr_RegisteredDirectory = RegisteredDirectory vasp,
                lr_CommonName = CommonName vasp, lr_Endpoint = TrisaEndpoint vasp,
                lr_IdentityCertificate = IdentityCertificate vasp,
                lr_Country = CountryOfRegistration p, lr_VerifiedOn = VerifiedOn vasp,
                lr_Name = VASP_Name vasp,
                lr_SigningCertificate =
                  (if length (SigningCertificates vasp) > 0
                   then Some (SigningCertificates vasp ! (length (SigningCertificates vasp) - 1))
                   else None)\<rparr>)"

definition Lookup :: "env \<Rightarrow> world \<Rightarrow> LookupRequest \<Rightarrow> rpc_error + LookupReply" where
  "Lookup e w rin =
     (if lookup_Id rin \<noteq> [] then
        (case RetrieveVASP e Lookup_RetrieveVASP w (lookup_Id rin) of
           Inl err \<Rightarrow> Inl (Status NotFound ''could not find VASP by ID'')
         | Inr vasp \<Rightarrow> lookupReply vasp)
      else if lookup_CommonName rin \<noteq> [] then
        (case SearchVASPs e Lookup_SearchVASPs w [(''name'', [lookup_CommonName rin])] of
           Inl err \<Rightarrow> Inl (Status NotFound ''could not find VASP by common name'')
         | Inr found \<Rightarrow>
             if length found \<noteq> 1 then Inl (Status NotFound ''could not find VASP by common name'')
             else lookupReply (found ! 0))
      else Inl (Status InvalidArgument
                  ''please supply ID and registered directory or common name for lookup''))"

subsection \<open>\<^verbatim>\<open>VerifyContact\<close>\<close>

text \<open>
  Lines 459 to 495: the loop over the contacts. Its state is the VASP, the number of
  contacts verified before, whether the token was found, and the email address of the
  contact it verified last. A contact whose token is the token of the request is marked
  as verified, which clears its token, and the audit log gets an entry for it.
\<close>

fun verifyContacts ::
  "string \<Rightarrow> string \<Rightarrow> ContactKind list \<Rightarrow> VASP \<Rightarrow> nat \<Rightarrow> bool \<Rightarrow> string
     \<Rightarrow> rpc_error + (VASP \<times> nat \<times> bool \<times> string)" where
  "verifyContacts token ts [] vasp prevVerified found contactEmail =
     Inr (vasp, prevVerified, found, contactEmail)"
| "verifyContacts token ts (k # ks) vasp prevVerified found contactEmail =
     (case vaspContact vasp k of
        None \<Rightarrow> verifyContacts token ts ks vasp prevVerified found contactEmail
      | Some contact \<Rightarrow>
          (case GetContactVerification contact of
             Inl err \<Rightarrow> Inl (Status Aborted ''could not verify contact'')
           | Inr tv \<Rightarrow>
               if fst tv = token then
                 (case SetContactVerification (Some contact) [] True of
                    Inl err \<Rightarrow> Inl (Status Aborted ''could not verify contact'')
                  | Inr c \<Rightarrow>
                      (case UpdateVerificationStatus (setVaspContact vasp k c)
                              (VerificationStatus vasp) ''contact verified'' (Email c) ts of
                         Inl err \<Rightarrow>
                           Inl (Status Aborted ''could not add new entry to VASP audit log'')
                       | Inr vasp1 \<Rightarrow> verifyContacts token ts ks vasp1 prevVerified True (Email c)))
               else if snd tv then
                 verifyContacts token ts ks vasp (prevVerified + 1) found contactEmail
               else verifyContacts token ts ks vasp prevVerified found contactEmail))"

definition reviewProblem :: string where
  "reviewProblem = ''there was a problem submitting your registration review request, please contact the admins''"

text \<open>
  Lines 519 to 566: the VASP becomes \<^verbatim>\<open>EMAIL_VERIFIED\<close>, gets an admin verification token
  of 48 bytes and is saved; the review request is sent, and a failure to send it is only
  logged; the VASP becomes \<^verbatim>\<open>PENDING_REVIEW\<close> and is saved again.
\<close>

definition verifyContactReview ::
  "env \<Rightarrow> world \<Rightarrow> VASP \<Rightarrow> string \<Rightarrow> (rpc_error + VerifyContactReply) \<times> world" where
  "verifyContactReview e w vasp contactEmail =
     (case UpdateVerificationStatus vasp EMAIL_VERIFIED ''completed email verification''
             contactEmail (now e) of
        Inl err \<Rightarrow> (Inl (Status Aborted ''could not add new entry to VASP audit log''), w)
      | Inr vasp1 \<Rightarrow>
          (let tw = CreateToken e w 48 in
           case SetAdminVerificationToken vasp1 (fst tw) of
             Inl err \<Rightarrow> (Inl (Status FailedPrecondition reviewProblem), snd tw)
           | Inr vasp2 \<Rightarrow>
               (case UpdateVASP e VerifyContact_UpdateVASP_token (snd tw) vasp2 of
                  (Some err, w1) \<Rightarrow> (Inl (Status FailedPrecondition reviewProblem), w1)
                | (None, w1) \<Rightarrow>
                    (let w2 = snd (SendReviewRequest e VerifyContact_SendReviewRequest w1 vasp2) in
                     case UpdateVerificationStatus vasp2 PENDING_REVIEW ''review email sent''
                            contactEmail (now e) of
                       Inl err \<Rightarrow>
                         (Inl (Status Aborted ''could not add new entry to VASP audit log''), w2)
                     | Inr vasp3 \<Rightarrow>
                         (case UpdateVASP e VerifyContact_UpdateVASP_review w2 vasp3 of
                            (Some err, w3) \<Rightarrow> (Inl (Status Internal reviewProblem), w3)
                          | (None, w3) \<Rightarrow>
                              (Inr \<lparr>vcr_Status = VerificationStatus vasp3,
                                    vcr_Message = ''email successfully verified and verification review sent to TRISA admins''\<rparr>,
                               w3))))))"

definition VerifyContact ::
  "env \<Rightarrow> world \<Rightarrow> VerifyContactRequest \<Rightarrow> (rpc_error + VerifyContactReply) \<times> world" where
  "VerifyContact e w rin =
     (if vc_Token rin = [] then
        (Inl (Status InvalidArgument
                ''could not verify contact: verification token missing from request''), w)
      else
        (case RetrieveVASP e VerifyContact_RetrieveVASP w (vc_Id rin) of
           Inl err \<Rightarrow> (Inl (Status NotFound ''could not find associated VASP record by ID''), w)
         | Inr vasp \<Rightarrow>
             (case verifyContacts (vc_Token rin) (now e)
                     (NewContactIterator (vasp_Contacts vasp) False False) vasp 0 False [] of
                Inl err \<Rightarrow> (Inl err, w)
              | Inr (vasp1, prevVerified, found, contactEmail) \<Rightarrow>
                  if \<not> found then
                    (Inl (Status NotFound ''could not find contact with the specified token''), w)
                  else if prevVerified > 0
                          \<and> state_number (VerificationStatus vasp1) > state_number SUBMITTED then
                    (case UpdateVASP e VerifyContact_UpdateVASP_contact w vasp1 of
                       (Some err, w1) \<Rightarrow>
                         (Inl (Status Internal ''could not update contact after verification''), w1)
                     | (None, w1) \<Rightarrow>
                         (Inr \<lparr>vcr_Status = VerificationStatus vasp1,
                               vcr_Message = ''email successfully verified''\<rparr>, w1))
                  else verifyContactReview e w vasp1 contactEmail)))"

subsection \<open>What a handler leaves behind\<close>

text \<open>
  The store keeps each VASP under its own identifier, which \<^verbatim>\<open>CreateVASP\<close> and
  \<^verbatim>\<open>UpdateVASP\<close> maintain.
\<close>

definition wellKeyed :: "world \<Rightarrow> bool" where
  "wellKeyed w = list_all (\<lambda>kv. vasp_Id (snd kv) = fst kv) (vasps w)"

text \<open>A contact of a VASP does not carry the token: it is nil, or its token is another one.\<close>

definition tokenAbsent :: "string \<Rightarrow> VASP \<Rightarrow> ContactKind \<Rightarrow> bool" where
  "tokenAbsent token vasp k =
     (case vaspContact vasp k of
        None \<Rightarrow> True
      | Some c \<Rightarrow> (case GetContactVerification c of Inl err \<Rightarrow> False | Inr tv \<Rightarrow> fst tv \<noteq> token))"

text \<open>A contact of a VASP is marked as verified.\<close>

definition contactVerified :: "VASP \<Rightarrow> ContactKind \<Rightarrow> bool" where
  "contactVerified vasp k =
     (case vaspContact vasp k of
        None \<Rightarrow> False
      | Some c \<Rightarrow> (case GetContactVerification c of Inl err \<Rightarrow> False | Inr tv \<Rightarrow> snd tv))"

definition reviewRequestMail :: "env \<Rightarrow> Email_message" where
  "reviewRequestMail e = \<lparr>em_Reason = ''review_request'', em_To = AdminEmail e\<rparr>"

section \<open>The certificate manager\<close>

subsection \<open>The certificate authority\<close>

text \<open>
  Modelled from the spec: the client of the certificate authority (\<^verbatim>\<open>pkg/sectigo\<close>) is not
  among the sources. The spec gives its contract: the available balance, the submission
  of a batch, the detail, the status and the processing information of a batch; any
  transport error is a transient failure. The responses of the authority are the
  parameters of a tick.
\<close>

datatype ca_error = TransportError

record BatchResponse =
  br_BatchID :: int
  br_OrderNumber :: int
  br_CreationDate :: string
  br_Status :: string
  br_BatchName :: string
  br_RejectReason :: string

record ProcessingInfoResponse =
  pi_Active :: int
  pi_Success :: int
  pi_Failed :: int

record ca =
  Profile :: string
  UserAvailableBalance :: "ca_error + int"
  Batch :: "string \<Rightarrow> (string \<times> string) list \<Rightarrow> ca_error + BatchResponse"
  BatchDetail :: "int \<Rightarrow> ca_error + BatchResponse"
  BatchStatus :: "int \<Rightarrow> ca_error + string"
  BatchProcessingInfo :: "int \<Rightarrow> ca_error + ProcessingInfoResponse"

text \<open>The calls that a tick makes to the authority, in their order.\<close>

datatype ca_call =
  Call_UserAvailableBalance | Call_Batch | Call_BatchDetail | Call_BatchStatus
  | Call_BatchProcessingInfo

subsection \<open>Writes of the manager\<close>

text \<open>
  Modelled from the spec: the certificate manager (\<^verbatim>\<open>pkg/gds/certman.go\<close>) is not among the
  sources. The spec says that the manager logs an external error and continues, and
  that a contract violation of the store stops the service; within a tick a write to the
  store is therefore the write itself, and every transition of a request is attributed
  to \<open>automated\<close>.
\<close>

definition storeVASP :: "world \<Rightarrow> VASP \<Rightarrow> world" where
  "storeVASP w vasp = w\<lparr>vasps := put (vasp_Id vasp) vasp (vasps w)\<rparr>"

definition storeCertReq :: "world \<Rightarrow> CertificateRequest \<Rightarrow> world" where
  "storeCertReq w r = w\<lparr>certreqs := put (cr_Id r) r (certreqs w)\<rparr>"

definition transition ::
  "env \<Rightarrow> CertificateRequest \<Rightarrow> CertificateRequestState \<Rightarrow> string \<Rightarrow> CertificateRequest" where
  "transition e r state reason =
     (case UpdateCertificateRequestStatus r state reason ''automated'' (now e) of
        Inl err \<Rightarrow> r
      | Inr r' \<Rightarrow> r')"

subsection \<open>A request in \<^verbatim>\<open>READY_TO_SUBMIT\<close>\<close>

definition validForSubmission :: "VerificationState \<Rightarrow> bool" where
  "validForSubmission s = (s = REVIEWED \<or> s = ISSUING_CERTIFICATE \<or> s = VERIFIED)"

text \<open>
  Modelled from the spec: the certificate manager is not among the sources. The spec
  says for a request in \<^verbatim>\<open>READY_TO_SUBMIT\<close>: if the state of the VASP is not one of
  \<^verbatim>\<open>REVIEWED\<close>, \<^verbatim>\<open>ISSUING_CERTIFICATE\<close>, \<^verbatim>\<open>VERIFIED\<close>, the request becomes \<^verbatim>\<open>CR_REJECTED\<close> with
  the reason \<open>vasp not in valid state for submission\<close>; else the VASP goes from
  \<^verbatim>\<open>REVIEWED\<close> to \<^verbatim>\<open>ISSUING_CERTIFICATE\<close> once; the password must be in the vault and the
  available balance must be positive, or the request stays as it is; then the batch is
  submitted, an error of the authority leaves the request as it is, and on success the
  batch identifier, the order number, the creation date and the profile are copied onto
  the request, which becomes \<^verbatim>\<open>PROCESSING\<close>. The result is the new state and the calls
  made to the authority.
\<close>

definition tickReadyToSubmit ::
  "env \<Rightarrow> ca \<Rightarrow> world \<Rightarrow> CertificateRequest \<Rightarrow> world \<times> ca_call list" where
  "tickReadyToSubmit e c w r =
     (case map_of (vasps w) (cr_Vasp r) of
        None \<Rightarrow> (w, [])
      | Some vasp \<Rightarrow>
          if \<not> validForSubmission (VerificationStatus vasp) then
            (storeCertReq w (transition e r CR_REJECTED ''vasp not in valid state for submission''),
             [])
          else
            (case (if VerificationStatus vasp = REVIEWED
                   then (case UpdateVerificationStatus vasp ISSUING_CERTIFICATE
                                ''issuing certificate'' ''automated'' (now e) of
                           Inl err \<Rightarrow> None
                         | Inr vasp1 \<Rightarrow> Some (storeVASP w vasp1))
                   else Some w) of
               None \<Rightarrow> (w, [])
             | Some w1 \<Rightarrow>
                 (case GetLatestVersion w1 (cr_Id r) ''password'' of
                    Inl err \<Rightarrow> (w1, [])
                  | Inr password \<Rightarrow>
                      (case UserAvailableBalance c of
                         Inl err \<Rightarrow> (w1, [Call_UserAvailableBalance])
                       | Inr balance \<Rightarrow>
                           if balance \<le> 0 then (w1, [Call_UserAvailableBalance])
                           else
                             (case Batch c (Profile c) (cr_Params r) of
                                Inl err \<Rightarrow> (w1, [Call_UserAvailableBalance, Call_Batch])
                              | Inr b \<Rightarrow>
                                  (storeCertReq w1
                                     (transition e
                                        (r\<lparr>cr_BatchId := br_BatchID b,
                                           cr_OrderNumber := br_OrderNumber b,
                                           cr_CreationDate := br_CreationDate b,
                                           cr_Profile := Profile c\<rparr>)
                                        PROCESSING ''certificate submitted''),
                                   [Call_UserAvailableBalance, Call_Batch]))))))"

subsection \<open>A request in \<^verbatim>\<open>PROCESSING\<close>\<close>

text \<open>
  Modelled from the spec: the certificate manager is not among the sources. The status
  of a batch is the status of its detail, and the status call is the fallback when the
  detail has none.
\<close>

definition consultBatch :: "ca \<Rightarrow> int \<Rightarrow> BatchResponse option \<times> ca_call list" where
  "consultBatch c batch =
     (case BatchDetail c batch of
        Inl err \<Rightarrow> (None, [Call_BatchDetail])
      | Inr d \<Rightarrow>
          if br_Status d \<noteq> [] then (Some d, [Call_BatchDetail])
          else (case BatchStatus c batch of
                  Inl err \<Rightarrow> (None, [Call_BatchDetail, Call_BatchStatus])
                | Inr s \<Rightarrow> (Some (d\<lparr>br_Status := s\<rparr>), [Call_BatchDetail, Call_BatchStatus])))"

text \<open>
  Modelled from the spec: the mailer is not among the sources. The rejection mail goes
  to the verified contacts of the VASP in the fixed order, each send is entered in the
  send log of the contact, and a failure of the mailer is never fatal.
\<close>

definition rejectionRecipients :: "VASP \<Rightarrow> ContactKind list" where
  "rejectionRecipients vasp =
     filter (contactVerified vasp) (NewContactIterator (vasp_Contacts vasp) True False)"

definition logRejection :: "string \<Rightarrow> ContactKind \<Rightarrow> VASP \<Rightarrow> VASP" where
  "logRejection ts k vasp =
     (case vaspContact vasp k of
        None \<Rightarrow> vasp
      | Some c \<Rightarrow> setVaspContact vasp k (AppendEmailLog c ''rejection'' ts))"

definition SendRejection :: "env \<Rightarrow> bool \<Rightarrow> world \<Rightarrow> VASP \<Rightarrow> world" where
  "SendRejection e mailerFails w vasp =
     (if mailerFails then w
      else (storeVASP w (fold (logRejection (now e)) (rejectionRecipients vasp) vasp))
             \<lparr>outbox := outbox w
                @ map (\<lambda>k. \<lparr>em_Reason = ''rejection'',
                             em_To = (case vaspContact vasp k of None \<Rightarrow> [] | Some c \<Rightarrow> Email c)\<rparr>)
                    (rejectionRecipients vasp)\<rparr>)"

text \<open>
  Modelled from the spec: the certificate manager is not among the sources. The spec
  says for a request in \<^verbatim>\<open>PROCESSING\<close>: the processing information of the batch is read;
  while a certificate is active the request remains, with an audit entry only when the
  status at the authority has changed; when certificates failed and none succeeded, the
  status of the batch decides: \<^verbatim>\<open>REJECTED\<close> makes the request \<^verbatim>\<open>CR_REJECTED\<close> and a
  rejection mail is sent, \<^verbatim>\<open>NOT_ACCEPTABLE\<close> makes it \<^verbatim>\<open>CR_ERRORED\<close>, a rejection reason in
  the detail rejects it as well, and anything else leaves it; when a certificate
  succeeded the request becomes \<^verbatim>\<open>DOWNLOADING\<close>. An error of the authority leaves the
  request as it is.
\<close>

definition tickProcessing ::
  "env \<Rightarrow> ca \<Rightarrow> bool \<Rightarrow> world \<Rightarrow> CertificateRequest \<Rightarrow> world \<times> ca_call list" where
  "tickProcessing e c mailerFails w r =
     (case BatchProcessingInfo c (cr_BatchId r) of
        Inl err \<Rightarrow> (w, [Call_BatchProcessingInfo])
      | Inr info \<Rightarrow>
          if pi_Active info > 0 then
            (case consultBatch c (cr_BatchId r) of
               (None, calls) \<Rightarrow> (w, Call_BatchProcessingInfo # calls)
             | (Some d, calls) \<Rightarrow>
                 if br_Status d = cr_BatchStatus r then (w, Call_BatchProcessingInfo # calls)
                 else (storeCertReq w
                         (transition e (r\<lparr>cr_BatchStatus := br_Status d,
                                          cr_BatchName := br_BatchName d\<rparr>)
                            PROCESSING ''batch status changed''),
                       Call_BatchProcessingInfo # calls))
          else if pi_Failed info > 0 \<and> pi_Success info = 0 then
            (case consultBatch c (cr_BatchId r) of
               (None, calls) \<Rightarrow> (w, Call_BatchProcessingInfo # calls)
             | (Some d, calls) \<Rightarrow>
                 (let r1 = r\<lparr>cr_BatchStatus := br_Status d, cr_BatchName := br_BatchName d,
                              cr_RejectReason := br_RejectReason d\<rparr>
                  in if br_Status d = ''REJECTED'' then
                       (let w1 = storeCertReq w (transition e r1 CR_REJECTED ''certificate request rejected'')
                        in ((case map_of (vasps w1) (cr_Vasp r) of
                               None \<Rightarrow> w1
                             | Some vasp \<Rightarrow> SendRejection e mailerFails w1 vasp),
                            Call_BatchProcessingInfo # calls))
                     else if br_Status d = ''NOT_ACCEPTABLE'' then
                       (storeCertReq w (transition e r1 CR_ERRORED ''certificate request not acceptable''),
                        Call_BatchProcessingInfo # calls)
                     else if br_RejectReason d \<noteq> [] then
                       (let w1 = storeCertReq w (transition e r1 CR_REJECTED ''certificate request rejected'')
                        in ((case map_of (vasps w1) (cr_Vasp r) of
                               None \<Rightarrow> w1
                             | Some vasp \<Rightarrow> SendRejection e mailerFails w1 vasp),
                            Call_BatchProcessingInfo # calls))
                     else (w, Call_BatchProcessingInfo # calls)))
          else if pi_Success info > 0 then
            (storeCertReq w (transition e r DOWNLOADING ''certificate ready for download''),
             [Call_BatchProcessingInfo])
          else (w, [Call_BatchProcessingInfo]))"

subsection \<open>One request in one tick\<close>

text \<open>
  Modelled from the spec: the certificate manager is not among the sources. A tick
  handles a request by its status. The download of an issued certificate, which the
  spec describes for \<^verbatim>\<open>DOWNLOADING\<close>, is outside this development: such a request, and one
  in any other state, is left as it is here.
\<close>

definition tickRequest ::
  "env \<Rightarrow> ca \<Rightarrow> bool \<Rightarrow> world \<Rightarrow> string \<Rightarrow> world \<times> ca_call list" where
  "tickRequest e c mailerFails w rid =
     (case map_of (certreqs w) rid of
        None \<Rightarrow> (w, [])
      | Some r \<Rightarrow>
          if cr_Status r = READY_TO_SUBMIT then tickReadyToSubmit e c w r
          else if cr_Status r = PROCESSING then tickProcessing e c mailerFails w r
          else (w, []))"

section \<open>Worked examples\<close>

text \<open>
  A directory whose collaborators never fail, an empty store, and the registration of
  one VASP with a legal contact and no common name of its own.
\<close>

definition exampleEnv :: env where
  "exampleEnv =
     \<lparr>DirectoryID = ''trisa.directory'', AdminEmail = ''admin@trisa.io'',
      Validate = (\<lambda>vasp. Valid), fails = (\<lambda>site. False), random = (\<lambda>i. i),
      uuid = (\<lambda>n. ''uuid-'' @ [token_alphabet ! n]), now = ''2022-05-01T00:00:00Z''\<rparr>"

definition emptyWorld :: world where
  "emptyWorld =
     \<lparr>vasps = [], certreqs = [], secrets = [], outbox = [], random_used = 0, uuid_used = 0\<rparr>"

definition exampleRequest :: RegisterRequest where
  "exampleRequest =
     \<lparr>req_Entity = Some \<lparr>LegalName = ''Example VASP'', CountryOfRegistration = ''US''\<rparr>,
      req_Contacts = Some \<lparr>Technical = None, Administrative = None,
        Legal = Some \<lparr>Name = ''Ada'', Email = ''a@x.io'', Phone = [], contact_Extra = None\<rparr>,
        Billing = None\<rparr>,
      req_TrisaEndpoint = ''trisa.example.com:443'', req_CommonName = [], req_Website = [],
      req_BusinessCategory = ''BUSINESS_ENTITY'', req_VaspCategories = [],
      req_EstablishedOn = [], req_Trixo = None\<rparr>"

definition exampleReply :: RegisterReply where
  "exampleReply =
     \<lparr>reply_Id = ''uuid-a'', reply_RegisteredDirectory = ''trisa.directory'',
      reply_CommonName = ''trisa.example.com'', reply_Status = SUBMITTED,
      reply_Message = ''a verification code has been sent to contact emails, please check spam folder if it has not arrived; pkcs12 password attached, this is the only time it will be available -- do not lose!'',
      reply_Pkcs12Password = ''WXYZ0123456789ab''\<rparr>"

definition registeredWorld :: world where
  "registeredWorld = snd (Register exampleEnv emptyWorld exampleRequest)"

text \<open>The same registration with an endpoint whose host is a DNS wildcard.\<close>

definition wildcardRequest :: RegisterRequest where
  "wildcardRequest = exampleRequest\<lparr>req_TrisaEndpoint := ''*.example.com:443''\<rparr>"

text \<open>The contact of the registered VASP verifies its email address with its token.\<close>

definition exampleVerify :: VerifyContactRequest where
  "exampleVerify = \<lparr>vc_Id = ''uuid-a'', vc_Token = ''abcdefghijklmnopqrstuvwxyzABCDEFGHIJKLMNOPQRSTUV''\<rparr>"

definition exampleVerifyReply :: VerifyContactReply where
  "exampleVerifyReply = \<lparr>vcr_Status = PENDING_REVIEW,
     vcr_Message = ''email successfully verified and verification review sent to TRISA admins''\<rparr>"

definition verifiedWorld :: world where
  "verifiedWorld = snd (VerifyContact exampleEnv registeredWorld exampleVerify)"

definition mailDownEnv :: env where
  "mailDownEnv = exampleEnv\<lparr>fails := (\<lambda>site. site = VerifyContact_SendReviewRequest)\<rparr>"

definition registeredVASP :: VASP where
  "registeredVASP = the (map_of (vasps registeredWorld) ''uuid-a'')"

text \<open>A lookup of the registered VASP by its common name, and a store with that name twice.\<close>

definition exampleLookup :: LookupRequest where
  "exampleLookup =
     \<lparr>lookup_Id = [], lookup_RegisteredDirectory = [], lookup_CommonName = ''trisa.example.com''\<rparr>"

definition exampleLookupReply :: LookupReply where
  "exampleLookupReply =
     \<lparr>lr_Id = ''uuid-a'', lr_RegisteredDirectory = ''trisa.directory'',
      lr_CommonName = ''trisa.example.com'', lr_Endpoint = ''trisa.example.com:443'',
      lr_IdentityCertificate = None, lr_Country = ''US'', lr_VerifiedOn = [],
      lr_Name = ''Example VASP'', lr_SigningCertificate = None\<rparr>"

definition duplicateWorld :: world where
  "duplicateWorld =
     registeredWorld\<lparr>vasps := vasps registeredWorld
                               @ map (\<lambda>kv. (''uuid-z'', snd kv)) (vasps registeredWorld)\<rparr>"

text \<open>
  The certificate authority of the examples: no balance, and one batch, number 42, that
  it has rejected.
\<close>

definition exampleCA :: ca where
  "exampleCA =
     \<lparr>Profile = ''CipherTrace EE'', UserAvailableBalance = Inr 0,
      Batch = (\<lambda>profile params. Inl TransportError),
      BatchDetail = (\<lambda>batch. Inr \<lparr>br_BatchID = 42, br_OrderNumber = 23,
                                    br_CreationDate = ''2022-05-01T00:00:00Z'',
                                    br_Status = ''REJECTED'', br_BatchName = ''batch 42'',
                                    br_RejectReason = []\<rparr>),
      BatchStatus = (\<lambda>batch. Inl TransportError),
      BatchProcessingInfo = (\<lambda>batch. Inr \<lparr>pi_Active = 0, pi_Success = 0, pi_Failed = 1\<rparr>)\<rparr>"

text \<open>
  The store after the contact verification, with the certificate request forced into
  \<^verbatim>\<open>READY_TO_SUBMIT\<close> while the VASP is in \<^verbatim>\<open>PENDING_REVIEW\<close>; then the same with the VASP
  in \<^verbatim>\<open>REVIEWED\<close>; then with the VASP in \<^verbatim>\<open>ISSUING_CERTIFICATE\<close> and the request in
  \<^verbatim>\<open>PROCESSING\<close>.
\<close>

definition setRequestStatus :: "CertificateRequestState \<Rightarrow> world \<Rightarrow> world" where
  "setRequestStatus s w =
     w\<lparr>certreqs := map (\<lambda>kv. (fst kv, (snd kv)\<lparr>cr_Status := s, cr_BatchId := 42\<rparr>)) (certreqs w)\<rparr>"

definition setVASPStatus :: "VerificationState \<Rightarrow> world \<Rightarrow> world" where
  "setVASPStatus s w =
     w\<lparr>vasps := map (\<lambda>kv. (fst kv, (snd kv)\<lparr>VerificationStatus := s\<rparr>)) (vasps w)\<rparr>"

definition readyWorld :: world where
  "readyWorld = setRequestStatus READY_TO_SUBMIT verifiedWorld"

definition reviewedWorld :: world where
  "reviewedWorld = setVASPStatus REVIEWED readyWorld"

definition processingWorld :: world where
  "processingWorld = setVASPStatus ISSUING_CERTIFICATE (setRequestStatus PROCESSING verifiedWorld)"

definition readyRequest :: CertificateRequest where
  "readyRequest = the (map_of (certreqs readyWorld) ''uuid-b'')"

definition pendingVASP :: VASP where
  "pendingVASP = the (map_of (vasps readyWorld) ''uuid-a'')"

definition reviewedVASP :: VASP where
  "reviewedVASP = the (map_of (vasps reviewedWorld) ''uuid-a'')"

definition processingRequest :: CertificateRequest where
  "processingRequest = the (map_of (certreqs processingWorld) ''uuid-b'')"

definition issuingVASP :: VASP where
  "issuingVASP = the (map_of (vasps processingWorld) ''uuid-a'')"

text \<open>
  The registered VASP rejected by an administrator before any of its contacts has
  verified an email address, and the transitions that an audit log records.
\<close>

definition rejectedWorld :: world where
  "rejectedWorld = setVASPStatus REJECTED registeredWorld"

definition rejectedVASP :: VASP where
  "rejectedVASP = the (map_of (vasps rejectedWorld) ''uuid-a'')"

definition auditTransition :: "AuditLogEntry \<Rightarrow> VerificationState \<times> VerificationState" where
  "auditTransition en = (al_PreviousState en, al_CurrentState en)"

definition auditTransitions :: "VASP \<Rightarrow> (VerificationState \<times> VerificationState) list" where
  "auditTransitions vasp =
     (case GetAuditLog vasp of Inl err \<Rightarrow> [] | Inr log \<Rightarrow> map auditTransition log)"


section \<open>Endpoint validation\<close>

lemma validateEndpoint_minus_one: "validateEndpoint ''example.com:-1'' = None"
  by code_simp

lemma validateEndpoint_99999: "validateEndpoint ''example.com:99999'' = None"
  by code_simp

lemma Atoi_minus_one: "Atoi ''-1'' = Inr (- 1)"
  by (simp add: Atoi_def digit_val_def is_digit_def)

lemma Atoi_99999: "Atoi ''99999'' = Inr 99999"
  by (simp add: Atoi_def digit_val_def is_digit_def)

lemma validateEndpoint_accepts:
  "(validateEndpoint endpoint = None) =
     (case SplitHostPort endpoint of
        Inl err \<Rightarrow> False
      | Inr (host, port) \<Rightarrow>
          host \<noteq> [] \<and> port \<noteq> [] \<and> (case Atoi port of Inl err \<Rightarrow> False | Inr n \<Rightarrow> True))"
  by (simp add: validateEndpoint_def split: sum.splits prod.splits)

text \<open>
  C10. \<^verbatim>\<open>validateEndpoint\<close> accepts an endpoint exactly when it splits into a host and a
  port, both non-empty, and \<^verbatim>\<open>strconv.Atoi\<close> parses the port; the value of the port is
  never compared with a range, so the endpoints with the ports \<open>-1\<close> and \<open>99999\<close>, which
  parse as these integers, are accepted.
\<close>

theorem validateEndpoint_no_range_check:
  "(validateEndpoint endpoint = None) =
     (case SplitHostPort endpoint of
        Inl err \<Rightarrow> False
      | Inr (host, port) \<Rightarrow>
          host \<noteq> [] \<and> port \<noteq> [] \<and> (case Atoi port of Inl err \<Rightarrow> False | Inr n \<Rightarrow> True))
   \<and> validateEndpoint ''example.com:-1'' = None \<and> Atoi ''-1'' = Inr (- 1)
   \<and> validateEndpoint ''example.com:99999'' = None \<and> Atoi ''99999'' = Inr 99999"
  using validateEndpoint_accepts [of endpoint] validateEndpoint_minus_one validateEndpoint_99999
    Atoi_minus_one Atoi_99999
  by blast

section \<open>Registration\<close>

subsection \<open>Stores and tokens\<close>

lemma map_of_put: "map_of (put k v kvs) = (map_of kvs)(k \<mapsto> v)"
  by (induction kvs) auto

lemma CreateToken_length: "length (fst (CreateToken e w n)) = n"
  by (simp add: CreateToken_def)

lemma UpdateVASP_None:
  "UpdateVASP e site w vasp = (None, w') \<Longrightarrow> w' = w\<lparr>vasps := put (vasp_Id vasp) vasp (vasps w)\<rparr>"
  by (auto simp: UpdateVASP_def split: if_splits)

lemma UpdateCertReq_None:
  "UpdateCertReq e site w r = (None, w') \<Longrightarrow> w' = w\<lparr>certreqs := put (cr_Id r) r (certreqs w)\<rparr>"
  by (auto simp: UpdateCertReq_def split: if_splits)

lemma AddSecretVersion_None:
  "AddSecretVersion e site w scope secretType payload = (None, w') \<Longrightarrow>
     \<exists>versions. w' = w\<lparr>secrets := put (scope, secretType) (versions @ [payload]) (secrets w)\<rparr>"
  by (auto simp: AddSecretVersion_def split: if_splits option.splits)

lemma GetLatestVersion_put:
  "secrets w = put (scope, secretType) (versions @ [payload]) kvs \<Longrightarrow>
     GetLatestVersion w scope secretType = Inr payload"
  by (simp add: GetLatestVersion_def map_of_put)

lemma AppendCertReqID_Inr:
  "AppendCertReqID vasp ident = Inr vasp' \<Longrightarrow>
     vasp_Id vasp' = vasp_Id vasp \<and> (\<exists>ids. GetCertReqIDs vasp' = Inr (ids @ [ident]))"
  by (auto simp: AppendCertReqID_def GetCertReqIDs_def decodeVASPExtra_def
      split: sum.splits option.splits VASPExtra.splits)

lemma UpdateCertificateRequestStatus_Inr:
  "UpdateCertificateRequestStatus r state description source ts = Inr r' \<Longrightarrow>
     cr_Id r' = cr_Id r \<and> cr_Vasp r' = cr_Vasp r \<and> cr_Status r' = state
     \<and> map crl_CurrentState (cr_AuditLog r') = map crl_CurrentState (cr_AuditLog r) @ [state]"
  by (auto simp: UpdateCertificateRequestStatus_def)

lemma NewCertificateRequest_Inr:
  "NewCertificateRequest e w vasp = (Inr r, w') \<Longrightarrow>
     cr_Vasp r = vasp_Id vasp \<and> cr_AuditLog r = [] \<and> cr_Status r = INITIALIZED"
  by (auto simp: NewCertificateRequest_def)

subsection \<open>The certificate request of a registration\<close>

text \<open>
  When the last part of \<^verbatim>\<open>Register\<close> replies, the VASP in the store names the new
  certificate request last, the request is in the store with the status that line 247
  gave it, and the vault holds the password of the reply as the latest version.
\<close>

lemma registerCertificateRequest_Inr:
  assumes "registerCertificateRequest e w vasp email = (Inr reply, w')"
  shows "\<exists>vasp' ids r.
           reply_Id reply = vasp_Id vasp
         \<and> reply_Pkcs12Password reply = fst (CreateToken e w 16)
         \<and> map_of (vasps w') (vasp_Id vasp) = Some vasp'
         \<and> GetCertReqIDs vasp' = Inr ids \<and> ids \<noteq> []
         \<and> map_of (certreqs w') (last ids) = Some r
         \<and> cr_Vasp r = vasp_Id vasp
         \<and> cr_Status r = INITIALIZED
         \<and> map crl_CurrentState (cr_AuditLog r) = [INITIALIZED]
         \<and> GetLatestVersion w' (last ids) ''password'' = Inr (fst (CreateToken e w 16))"
proof -
  from assms obtain r0 w1 r w2 w3 w4 vasp1 where
    new: "NewCertificateRequest e (snd (CreateToken e w 16)) vasp = (Inr r0, w1)" and
    upd: "UpdateCertificateRequestStatus r0 INITIALIZED ''created certificate request'' email (now e) = Inr r" and
    av: "AddSecretVersion e Register_AddSecretVersion w2 (cr_Id r) ''password'' (fst (CreateToken e w 16)) = (None, w3)" and
    ucr: "UpdateCertReq e Register_UpdateCertReq w3 r = (None, w4)" and
    app: "AppendCertReqID vasp (cr_Id r) = Inr vasp1" and
    uv: "UpdateVASP e Register_UpdateVASP_certreq w4 vasp1 = (None, w')" and
    rep: "reply_Id reply = vasp_Id vasp1" "reply_Pkcs12Password reply = fst (CreateToken e w 16)"
    by (auto simp: registerCertificateRequest_def Let_def
        split: prod.splits sum.splits option.splits)
  from app obtain ids where id1: "vasp_Id vasp1 = vasp_Id vasp"
    and ids: "GetCertReqIDs vasp1 = Inr (ids @ [cr_Id r])"
    using AppendCertReqID_Inr by blast
  from av obtain versions where
    w3: "w3 = w2\<lparr>secrets := put (cr_Id r, ''password'') (versions @ [fst (CreateToken e w 16)]) (secrets w2)\<rparr>"
    using AddSecretVersion_None by blast
  have w4: "w4 = w3\<lparr>certreqs := put (cr_Id r) r (certreqs w3)\<rparr>"
    using ucr by (rule UpdateCertReq_None)
  have w5: "w' = w4\<lparr>vasps := put (vasp_Id vasp1) vasp1 (vasps w4)\<rparr>"
    using uv by (rule UpdateVASP_None)
  have a: "map_of (vasps w') (vasp_Id vasp) = Some vasp1"
    by (simp add: w5 map_of_put id1)
  have b: "map_of (certreqs w') (cr_Id r) = Some r"
    by (simp add: w5 w4 map_of_put)
  have c: "GetLatestVersion w' (cr_Id r) ''password'' = Inr (fst (CreateToken e w 16))"
    by (rule GetLatestVersion_put [where versions = versions and kvs = "secrets w2"])
      (simp add: w5 w4 w3)
  have d: "cr_Vasp r = vasp_Id vasp" "cr_Status r = INITIALIZED"
    "map crl_CurrentState (cr_AuditLog r) = [INITIALIZED]"
    using NewCertificateRequest_Inr [OF new] UpdateCertificateRequestStatus_Inr [OF upd]
    by simp_all
  show ?thesis
    using a b c d ids rep id1
    by (intro exI [of _ vasp1] exI [of _ "ids @ [cr_Id r]"] exI [of _ r]) simp
qed

lemma Register_Inr:
  assumes "Register e w rin = (Inr reply, w')"
  shows "\<exists>w1 vasp email. registerCertificateRequest e w1 vasp email = (Inr reply, w')"
  using assms by (auto simp: Register_def split: sum.splits prod.splits)

lemma Register_example_reply: "fst (Register exampleEnv emptyWorld exampleRequest) = Inr exampleReply"
  by code_simp

lemma Register_example:
  "Register exampleEnv emptyWorld exampleRequest = (Inr exampleReply, registeredWorld)"
  using Register_example_reply by (simp add: registeredWorld_def prod_eq_iff)

text \<open>
  C1, as the code has it. When \<^verbatim>\<open>Register\<close> replies, the VASP stored under the identifier
  of the reply names a certificate request last; that request is in the store, belongs
  to the VASP, and has the status \<^verbatim>\<open>INITIALIZED\<close>, which is also the only state its audit
  log records. \<^verbatim>\<open>Register\<close> makes no transition to \<^verbatim>\<open>READY_TO_SUBMIT\<close>.
\<close>

theorem Register_persists_INITIALIZED:
  assumes "Register e w rin = (Inr reply, w')"
  shows "\<exists>vasp ids r.
           map_of (vasps w') (reply_Id reply) = Some vasp
         \<and> GetCertReqIDs vasp = Inr ids \<and> ids \<noteq> []
         \<and> map_of (certreqs w') (last ids) = Some r
         \<and> cr_Vasp r = reply_Id reply
         \<and> cr_Status r = INITIALIZED
         \<and> map crl_CurrentState (cr_AuditLog r) = [INITIALIZED]"
proof -
  from Register_Inr [OF assms] obtain w1 vasp email where
    "registerCertificateRequest e w1 vasp email = (Inr reply, w')"
    by blast
  from registerCertificateRequest_Inr [OF this] show ?thesis
    by metis
qed

theorem Register_persists_INITIALIZED_witness:
  "Register exampleEnv emptyWorld exampleRequest = (Inr exampleReply, registeredWorld)
   \<and> (\<exists>vasp ids r.
           map_of (vasps registeredWorld) (reply_Id exampleReply) = Some vasp
         \<and> GetCertReqIDs vasp = Inr ids \<and> ids \<noteq> []
         \<and> map_of (certreqs registeredWorld) (last ids) = Some r
         \<and> cr_Vasp r = reply_Id exampleReply
         \<and> cr_Status r = INITIALIZED
         \<and> map crl_CurrentState (cr_AuditLog r) = [INITIALIZED])"
  using Register_persists_INITIALIZED [OF Register_example] Register_example by blast

text \<open>
  The registration of the example replies, and the one certificate request in the store
  afterwards is in \<^verbatim>\<open>INITIALIZED\<close>, not in \<^verbatim>\<open>READY_TO_SUBMIT\<close>.
\<close>

theorem Register_READY_TO_SUBMIT_counterexample:
  "fst (Register exampleEnv emptyWorld exampleRequest) = Inr exampleReply
   \<and> map fst (certreqs (snd (Register exampleEnv emptyWorld exampleRequest))) = [''uuid-b'']
   \<and> map_option cr_Status
       (map_of (certreqs (snd (Register exampleEnv emptyWorld exampleRequest))) ''uuid-b'')
     = Some INITIALIZED
   \<and> INITIALIZED \<noteq> READY_TO_SUBMIT"
  by code_simp

text \<open>
  C2. When \<^verbatim>\<open>Register\<close> replies, the latest version of the secret \<open>password\<close> in the scope
  of the new certificate request is the PKCS12 password of the reply, and it is 16
  bytes long.
\<close>

theorem Register_password_in_vault:
  assumes "Register e w rin = (Inr reply, w')"
  shows "\<exists>vasp ids r.
           map_of (vasps w') (reply_Id reply) = Some vasp
         \<and> GetCertReqIDs vasp = Inr ids \<and> ids \<noteq> []
         \<and> map_of (certreqs w') (last ids) = Some r
         \<and> GetLatestVersion w' (last ids) ''password'' = Inr (reply_Pkcs12Password reply)
         \<and> length (reply_Pkcs12Password reply) = 16"
proof -
  from Register_Inr [OF assms] obtain w1 vasp email where
    "registerCertificateRequest e w1 vasp email = (Inr reply, w')"
    by blast
  from registerCertificateRequest_Inr [OF this] obtain vasp' ids r where
    "reply_Id reply = vasp_Id vasp"
    "reply_Pkcs12Password reply = fst (CreateToken e w1 16)"
    "map_of (vasps w') (vasp_Id vasp) = Some vasp'"
    "GetCertReqIDs vasp' = Inr ids" "ids \<noteq> []"
    "map_of (certreqs w') (last ids) = Some r"
    "GetLatestVersion w' (last ids) ''password'' = Inr (fst (CreateToken e w1 16))"
    by blast
  then show ?thesis
    using CreateToken_length [of e w1 16] by auto
qed

theorem Register_password_in_vault_witness:
  "Register exampleEnv emptyWorld exampleRequest = (Inr exampleReply, registeredWorld)
   \<and> (\<exists>vasp ids r.
           map_of (vasps registeredWorld) (reply_Id exampleReply) = Some vasp
         \<and> GetCertReqIDs vasp = Inr ids \<and> ids \<noteq> []
         \<and> map_of (certreqs registeredWorld) (last ids) = Some r
         \<and> GetLatestVersion registeredWorld (last ids) ''password''
             = Inr (reply_Pkcs12Password exampleReply)
         \<and> length (reply_Pkcs12Password exampleReply) = 16)"
  using Register_password_in_vault [OF Register_example] Register_example by blast

subsection \<open>The common name of a registration\<close>

lemma ValidateCommonName_None:
  "(ValidateCommonName name = None) = (name \<noteq> [] \<and> take 1 name \<noteq> ''*'' \<and> cnre_MatchString name)"
  by (simp add: ValidateCommonName_def)

lemma registerValidate_invalid_common_name:
  assumes "req_CommonName rin \<noteq> []" "ValidateCommonName (req_CommonName rin) \<noteq> None"
  shows "\<exists>msg. registerValidate e rin = Inl (Status InvalidArgument msg)"
  using assms
  by (simp add: registerValidate_def registerCommonName_def newVASP_def)

text \<open>
  The branch of line 149: a common name that the request supplies and that starts with
  \<open>*\<close> or does not match the pattern of DNS labels is refused with \<^verbatim>\<open>INVALID_ARGUMENT\<close>,
  and nothing is written.
\<close>

lemma Register_rejects_supplied_common_name:
  assumes "req_CommonName rin \<noteq> []"
    and "take 1 (req_CommonName rin) = ''*'' \<or> \<not> cnre_MatchString (req_CommonName rin)"
  shows "\<exists>msg. Register e w rin = (Inl (Status InvalidArgument msg), w)"
proof -
  from assms have "ValidateCommonName (req_CommonName rin) \<noteq> None"
    by (simp add: ValidateCommonName_None)
  with assms(1) obtain msg where "registerValidate e rin = Inl (Status InvalidArgument msg)"
    using registerValidate_invalid_common_name by blast
  then show ?thesis
    by (simp add: Register_def)
qed

text \<open>
  The branch of line 143: without a common name in the request, the common name of the
  VASP is the host of the endpoint, whatever that host is; the later steps of
  \<^verbatim>\<open>Register\<close> keep it, and the reply carries it.
\<close>

lemma UpdateVerificationStatus_CommonName:
  "UpdateVerificationStatus vasp st d s ts = Inr vasp' \<Longrightarrow> CommonName vasp' = CommonName vasp"
  by (auto simp: UpdateVerificationStatus_def split: sum.splits)

lemma registerValidate_derived:
  assumes "req_CommonName rin = []" and "registerValidate e rin = Inr (vasp, email)"
  shows "\<exists>port. SplitHostPort (req_TrisaEndpoint rin) = Inr (CommonName vasp, port)"
  using assms
  by (auto simp: registerValidate_def registerCommonName_def newVASP_def Let_def
      split: if_splits sum.splits validation.splits option.splits
      dest!: UpdateVerificationStatus_CommonName)

lemma setVaspContact_CommonName: "CommonName (setVaspContact vasp k c) = CommonName vasp"
  by (simp add: setVaspContact_def split: option.splits)

lemma setContactTokens_CommonName:
  "setContactTokens e ks vasp w = (Inr vasp', w') \<Longrightarrow> CommonName vasp' = CommonName vasp"
proof (induction ks arbitrary: vasp w)
  case Nil
  then show ?case by simp
next
  case (Cons k ks)
  then show ?case
    by (auto simp: Let_def setVaspContact_CommonName split: sum.splits)
qed

lemma SendVerifyContacts_CommonName:
  "SendVerifyContacts e site w vasp = (r, vasp', w') \<Longrightarrow> CommonName vasp' = CommonName vasp"
  by (auto simp: SendVerifyContacts_def Let_def split: if_splits option.splits)

lemma registerStore_CommonName:
  assumes "registerStore e w vasp = (Inr vasp', w')"
  shows "CommonName vasp' = CommonName vasp"
proof -
  from assms obtain ident w1 vasp2 w2 w3 r w4 where
    t: "setContactTokens e (NewContactIterator (vasp_Contacts (vasp\<lparr>vasp_Id := ident\<rparr>)) True False)
          (vasp\<lparr>vasp_Id := ident\<rparr>) w1 = (Inr vasp2, w2)" and
    s: "SendVerifyContacts e Register_SendVerifyContacts w3 vasp2 = (r, vasp', w4)"
    by (auto simp: registerStore_def Let_def split: prod.splits sum.splits option.splits)
  from setContactTokens_CommonName [OF t] SendVerifyContacts_CommonName [OF s] show ?thesis
    by simp
qed

lemma AppendCertReqID_CommonName:
  "AppendCertReqID vasp ident = Inr vasp' \<Longrightarrow> CommonName vasp' = CommonName vasp"
  by (auto simp: AppendCertReqID_def split: sum.splits)

lemma registerCertificateRequest_CommonName:
  assumes "registerCertificateRequest e w vasp email = (Inr reply, w')"
  shows "reply_CommonName reply = CommonName vasp"
proof -
  from assms obtain ident vasp1 where
    a: "AppendCertReqID vasp ident = Inr vasp1" and
    r: "reply_CommonName reply = CommonName vasp1"
    by (auto simp: registerCertificateRequest_def Let_def
        split: prod.splits sum.splits option.splits)
  from AppendCertReqID_CommonName [OF a] r show ?thesis
    by simp
qed

lemma Register_derived_common_name_is_host:
  assumes "req_CommonName rin = []" and "Register e w rin = (Inr reply, w')"
  shows "\<exists>port. SplitHostPort (req_TrisaEndpoint rin) = Inr (reply_CommonName reply, port)"
proof -
  from assms(2) obtain vasp email vasp1 w1 where
    v: "registerValidate e rin = Inr (vasp, email)" and
    s: "registerStore e w vasp = (Inr vasp1, w1)" and
    c: "registerCertificateRequest e w1 vasp1 email = (Inr reply, w')"
    by (auto simp: Register_def split: sum.splits prod.splits)
  from registerValidate_derived [OF assms(1) v] registerStore_CommonName [OF s]
    registerCertificateRequest_CommonName [OF c]
  show ?thesis
    by simp
qed

text \<open>
  C6 does not hold of the code when the common name is derived. The request of the
  example with the endpoint \<open>*.example.com:443\<close> and no common name is registered: the
  reply and the VASP in the store carry the common name \<open>*.example.com\<close>, which starts
  with \<open>*\<close> and which \<^verbatim>\<open>ValidateCommonName\<close> refuses as a wildcard. The library validation
  of the VASP is the one of the example, which accepts.
\<close>

theorem Register_registers_wildcard_host:
  "fst (Register exampleEnv emptyWorld wildcardRequest)
     = Inr (exampleReply\<lparr>reply_CommonName := ''*.example.com''\<rparr>)
   \<and> map (CommonName \<circ> snd) (vasps (snd (Register exampleEnv emptyWorld wildcardRequest)))
     = [''*.example.com'']
   \<and> req_CommonName wildcardRequest = []
   \<and> SplitHostPort (req_TrisaEndpoint wildcardRequest) = Inr (''*.example.com'', ''443'')
   \<and> ValidateCommonName ''*.example.com'' = Some ''wildcards are not allowed in TRISA common names''"
  by code_simp

section \<open>Lookup\<close>

text \<open>
  C9. A lookup by common name alone replies only when the search of the store for that
  name returns exactly one VASP; when the search returns none, or two or more, the
  answer is the one \<^verbatim>\<open>NOT_FOUND\<close> error.
\<close>

theorem Lookup_by_common_name_needs_one_match:
  assumes "lookup_Id rin = []" and "lookup_CommonName rin \<noteq> []"
  shows "(\<forall>reply. Lookup e w rin = Inr reply \<longrightarrow>
            (\<exists>vasp. SearchVASPs e Lookup_SearchVASPs w [(''name'', [lookup_CommonName rin])] = Inr [vasp]))
       \<and> (\<forall>found. SearchVASPs e Lookup_SearchVASPs w [(''name'', [lookup_CommonName rin])] = Inr found
              \<and> length found \<noteq> 1 \<longrightarrow>
            Lookup e w rin = Inl (Status NotFound ''could not find VASP by common name''))"
proof (intro conjI allI impI)
  fix reply
  assume "Lookup e w rin = Inr reply"
  with assms obtain found where f: "SearchVASPs e Lookup_SearchVASPs w [(''name'', [lookup_CommonName rin])] = Inr found"
    and l: "length found = 1"
    by (auto simp: Lookup_def split: sum.splits if_splits)
  from l obtain vasp where "found = [vasp]"
    by (cases found) auto
  with f show "\<exists>vasp. SearchVASPs e Lookup_SearchVASPs w [(''name'', [lookup_CommonName rin])] = Inr [vasp]"
    by blast
next
  fix found
  assume "SearchVASPs e Lookup_SearchVASPs w [(''name'', [lookup_CommonName rin])] = Inr found
              \<and> length found \<noteq> 1"
  with assms show "Lookup e w rin = Inl (Status NotFound ''could not find VASP by common name'')"
    by (simp add: Lookup_def)
qed

lemma exampleLookup_by_name: "lookup_Id exampleLookup = [] \<and> lookup_CommonName exampleLookup \<noteq> []"
  by (simp add: exampleLookup_def)

lemma Lookup_example: "Lookup exampleEnv registeredWorld exampleLookup = Inr exampleLookupReply"
  by code_simp

lemma Search_empty:
  "SearchVASPs exampleEnv Lookup_SearchVASPs emptyWorld [(''name'', [lookup_CommonName exampleLookup])]
     = Inr []"
  by code_simp

lemma Search_duplicate:
  "\<not> isl (SearchVASPs exampleEnv Lookup_SearchVASPs duplicateWorld
            [(''name'', [lookup_CommonName exampleLookup])])
   \<and> length (projr (SearchVASPs exampleEnv Lookup_SearchVASPs duplicateWorld
                      [(''name'', [lookup_CommonName exampleLookup])])) = 2"
  by code_simp

theorem Lookup_by_common_name_needs_one_match_witness:
  "Lookup exampleEnv registeredWorld exampleLookup = Inr exampleLookupReply
   \<and> (\<exists>vasp. SearchVASPs exampleEnv Lookup_SearchVASPs registeredWorld
                [(''name'', [lookup_CommonName exampleLookup])] = Inr [vasp])
   \<and> Lookup exampleEnv emptyWorld exampleLookup
       = Inl (Status NotFound ''could not find VASP by common name'')
   \<and> Lookup exampleEnv duplicateWorld exampleLookup
       = Inl (Status NotFound ''could not find VASP by common name'')"
proof -
  note n = exampleLookup_by_name [THEN conjunct1] exampleLookup_by_name [THEN conjunct2]
  have a: "\<exists>vasp. SearchVASPs exampleEnv Lookup_SearchVASPs registeredWorld
                [(''name'', [lookup_CommonName exampleLookup])] = Inr [vasp]"
    using Lookup_by_common_name_needs_one_match [OF n, of exampleEnv registeredWorld]
      Lookup_example by blast
  have b: "Lookup exampleEnv emptyWorld exampleLookup
       = Inl (Status NotFound ''could not find VASP by common name'')"
    using Lookup_by_common_name_needs_one_match [OF n, of exampleEnv emptyWorld] Search_empty
    by auto
  have "SearchVASPs exampleEnv Lookup_SearchVASPs duplicateWorld
            [(''name'', [lookup_CommonName exampleLookup])]
        = Inr (projr (SearchVASPs exampleEnv Lookup_SearchVASPs duplicateWorld
                      [(''name'', [lookup_CommonName exampleLookup])]))"
    using Search_duplicate by simp
  then have c: "Lookup exampleEnv duplicateWorld exampleLookup
       = Inl (Status NotFound ''could not find VASP by common name'')"
    using Lookup_by_common_name_needs_one_match [OF n, of exampleEnv duplicateWorld]
      Search_duplicate
    by (metis numeral_eq_one_iff semiring_norm(85))
  show ?thesis
    using Lookup_example a b c by blast
qed

section \<open>Contact verification\<close>

lemma wellKeyed_map_of:
  "wellKeyed w \<Longrightarrow> map_of (vasps w) k = Some vasp \<Longrightarrow> vasp_Id vasp = k"
  unfolding wellKeyed_def by (induction "vasps w" arbitrary: w) (auto simp: list_all_iff dest!: map_of_SomeD)

lemma vaspContact_setVaspContact:
  "vaspContact vasp k = Some c0 \<Longrightarrow>
     vaspContact (setVaspContact vasp k c) k' = (if k' = k then Some c else vaspContact vasp k')"
  by (cases k; cases k') (auto simp: vaspContact_def setVaspContact_def split: option.splits)

lemma vaspContact_cong:
  "vasp_Contacts a = vasp_Contacts b \<Longrightarrow> vaspContact a k = vaspContact b k"
  by (simp add: vaspContact_def)

lemma tokenAbsent_cong:
  "vasp_Contacts a = vasp_Contacts b \<Longrightarrow> tokenAbsent token a k = tokenAbsent token b k"
  by (simp add: tokenAbsent_def vaspContact_def)

lemma UpdateVerificationStatus_Inr:
  assumes "UpdateVerificationStatus vasp st d s ts = Inr vasp'"
  shows "vasp_Contacts vasp' = vasp_Contacts vasp" "vasp_Id vasp' = vasp_Id vasp"
    "VerificationStatus vasp' = st"
    "\<exists>log. GetAuditLog vasp = Inr log
        \<and> GetAuditLog vasp' = Inr (log @ [\<lparr>al_Timestamp = ts, al_PreviousState = VerificationStatus vasp,
               al_CurrentState = st, al_Description = d, al_Source = s\<rparr>])"
    "GetAdminVerificationToken vasp' = GetAdminVerificationToken vasp"
  using assms
  by (auto simp: UpdateVerificationStatus_def GetAuditLog_def GetAdminVerificationToken_def
      decodeVASPExtra_def split: sum.splits option.splits VASPExtra.splits)

lemma SetAdminVerificationToken_Inr:
  assumes "SetAdminVerificationToken vasp token = Inr vasp'"
  shows "vasp_Contacts vasp' = vasp_Contacts vasp" "vasp_Id vasp' = vasp_Id vasp"
    "VerificationStatus vasp' = VerificationStatus vasp"
    "GetAuditLog vasp' = GetAuditLog vasp"
    "GetAdminVerificationToken vasp' = Inr token"
  using assms
  by (auto simp: SetAdminVerificationToken_def GetAuditLog_def GetAdminVerificationToken_def
      decodeVASPExtra_def split: sum.splits option.splits VASPExtra.splits)

lemma SetContactVerification_Inr:
  "SetContactVerification (Some contact) token verified = Inr c \<Longrightarrow>
     GetContactVerification c = Inr (token, verified) \<and> Email c = Email contact"
  by (auto simp: SetContactVerification_def GetContactVerification_def
      split: option.splits ContactExtra.splits)

text \<open>The loop on a VASP none of whose contacts carries the token finds nothing.\<close>

lemma verifyContacts_absent:
  "list_all (tokenAbsent token vasp) ks \<Longrightarrow>
     \<exists>prev'. verifyContacts token ts ks vasp prev found email = Inr (vasp, prev', found, email)"
proof (induction ks arbitrary: prev)
  case Nil
  then show ?case by simp
next
  case (Cons k ks)
  then show ?case
    by (auto simp: tokenAbsent_def split: option.splits sum.splits)
qed

lemma GetAuditLog_setVaspContact: "GetAuditLog (setVaspContact vasp k c) = GetAuditLog vasp"
  by (simp add: GetAuditLog_def decodeVASPExtra_def setVaspContact_def split: option.splits)

lemma verifyContacts_Inr:
  assumes "verifyContacts token ts ks vasp prev found email = Inr (vasp', prev', found', email')"
    and "token \<noteq> []" and "distinct ks"
  shows "(\<forall>k. tokenAbsent token vasp k \<longrightarrow> tokenAbsent token vasp' k)
       \<and> (\<forall>k \<in> set ks. tokenAbsent token vasp' k)
       \<and> vasp_Id vasp' = vasp_Id vasp
       \<and> VerificationStatus vasp' = VerificationStatus vasp
       \<and> (list_all (\<lambda>k. \<not> contactVerified vasp k) ks \<longrightarrow> prev' = prev)
       \<and> (\<forall>log. GetAuditLog vasp = Inr log \<longrightarrow>
            (\<exists>cv. GetAuditLog vasp' = Inr (log @ cv)
               \<and> list_all (\<lambda>en. al_PreviousState en = VerificationStatus vasp
                                \<and> al_CurrentState en = VerificationStatus vasp) cv))"
  using assms
proof (induction ks arbitrary: vasp prev found email)
  case Nil
  then show ?case by auto
next
  case (Cons k ks)
  from Cons.prems(3) have dks: "distinct ks" and knot: "k \<notin> set ks"
    by simp_all
  show ?case
  proof (cases "vaspContact vasp k")
    case None
    with Cons.prems have r: "verifyContacts token ts ks vasp prev found email = Inr (vasp', prev', found', email')"
      by simp
    from Cons.IH [OF r Cons.prems(2) dks] None show ?thesis
      by (auto simp: tokenAbsent_def contactVerified_def)
  next
    case (Some contact)
    from Cons.prems Some obtain t v where gv: "GetContactVerification contact = Inr (t, v)"
      by (auto split: sum.splits)
    show ?thesis
    proof (cases "t = token")
      case True
      with Cons.prems Some gv obtain c vasp1 where
        sc: "SetContactVerification (Some contact) [] True = Inr c" and
        us: "UpdateVerificationStatus (setVaspContact vasp k c) (VerificationStatus vasp)
               ''contact verified'' (Email c) ts = Inr vasp1" and
        r: "verifyContacts token ts ks vasp1 prev True (Email c) = Inr (vasp', prev', found', email')"
        by (auto split: sum.splits)
      note ih = Cons.IH [OF r Cons.prems(2) dks]
      note u = UpdateVerificationStatus_Inr [OF us]
      have cont: "\<And>k'. vaspContact vasp1 k' = (if k' = k then Some c else vaspContact vasp k')"
        using vaspContact_cong [OF u(1)] vaspContact_setVaspContact [OF Some] by simp
      have gc: "GetContactVerification c = Inr ([], True)"
        using SetContactVerification_Inr [OF sc] by simp
      have pres: "\<And>k'. tokenAbsent token vasp k' \<Longrightarrow> tokenAbsent token vasp1 k'"
        using cont gc Cons.prems(2) by (auto simp: tokenAbsent_def)
      have here: "tokenAbsent token vasp1 k"
        using cont gc Cons.prems(2) by (auto simp: tokenAbsent_def)
      have id1: "vasp_Id vasp1 = vasp_Id vasp" "VerificationStatus vasp1 = VerificationStatus vasp"
        using u Some by (auto simp: setVaspContact_def vaspContact_def split: option.splits)
      have ver: "\<And>k'. k' \<noteq> k \<Longrightarrow> contactVerified vasp1 k' = contactVerified vasp k'"
        using cont by (simp add: contactVerified_def)
      have g1: "\<forall>k'. tokenAbsent token vasp k' \<longrightarrow> tokenAbsent token vasp' k'"
        using ih pres by blast
      have g2: "\<forall>k' \<in> set (k # ks). tokenAbsent token vasp' k'"
        using ih here by auto
      have g3: "vasp_Id vasp' = vasp_Id vasp \<and> VerificationStatus vasp' = VerificationStatus vasp"
        using ih id1 by simp
      have g4: "list_all (\<lambda>k. \<not> contactVerified vasp k) (k # ks) \<longrightarrow> prev' = prev"
      proof
        assume a: "list_all (\<lambda>k. \<not> contactVerified vasp k) (k # ks)"
        have "list_all (\<lambda>k. \<not> contactVerified vasp1 k) ks"
          unfolding list_all_iff
        proof
          fix k' assume "k' \<in> set ks"
          with knot a ver [of k'] show "\<not> contactVerified vasp1 k'"
            by (auto simp: list_all_iff)
        qed
        with ih show "prev' = prev" by blast
      qed
      have g5: "\<forall>log. GetAuditLog vasp = Inr log \<longrightarrow>
            (\<exists>cv. GetAuditLog vasp' = Inr (log @ cv)
               \<and> list_all (\<lambda>en. al_PreviousState en = VerificationStatus vasp
                                \<and> al_CurrentState en = VerificationStatus vasp) cv)"
      proof (intro allI impI)
        fix log assume l: "GetAuditLog vasp = Inr log"
        let ?en = "\<lparr>al_Timestamp = ts, al_PreviousState = VerificationStatus (setVaspContact vasp k c),
               al_CurrentState = VerificationStatus vasp, al_Description = ''contact verified'',
               al_Source = Email c\<rparr>"
        have l1: "GetAuditLog vasp1 = Inr (log @ [?en])"
          using u(4) l by (simp add: GetAuditLog_setVaspContact)
        have st: "VerificationStatus (setVaspContact vasp k c) = VerificationStatus vasp"
          by (simp add: setVaspContact_def split: option.splits)
        from ih l1 obtain cv where cv: "GetAuditLog vasp' = Inr ((log @ [?en]) @ cv)"
          "list_all (\<lambda>en. al_PreviousState en = VerificationStatus vasp1
                                \<and> al_CurrentState en = VerificationStatus vasp1) cv"
          by blast
        show "\<exists>cv. GetAuditLog vasp' = Inr (log @ cv)
               \<and> list_all (\<lambda>en. al_PreviousState en = VerificationStatus vasp
                                \<and> al_CurrentState en = VerificationStatus vasp) cv"
          using cv id1 st by (intro exI [of _ "?en # cv"]) simp
      qed
      show ?thesis
        using g1 g2 g3 g4 g5 by blast
    next
      case False
      with Cons.prems Some gv have
        r: "verifyContacts token ts ks vasp (if v then prev + 1 else prev) found email
              = Inr (vasp', prev', found', email')"
        by (auto split: if_splits)
      note ih = Cons.IH [OF r Cons.prems(2) dks]
      have abs: "tokenAbsent token vasp k"
        using Some gv False by (simp add: tokenAbsent_def)
      have v: "contactVerified vasp k = v"
        using Some gv by (simp add: contactVerified_def)
      have g2: "\<forall>k' \<in> set (k # ks). tokenAbsent token vasp' k'"
        using ih abs by auto
      have g4: "list_all (\<lambda>k. \<not> contactVerified vasp k) (k # ks) \<longrightarrow> prev' = prev"
        using ih v by auto
      show ?thesis
        using ih g2 g4 by blast
    qed
  qed
qed

lemma iterate_subset: "x \<in> set (iterate cs a b seen ks) \<Longrightarrow> x \<in> set ks"
  by (induction ks arbitrary: seen) (auto split: option.splits if_splits)

lemma iterate_distinct: "distinct ks \<Longrightarrow> distinct (iterate cs a b seen ks)"
proof (induction ks arbitrary: seen)
  case Nil
  then show ?case by simp
next
  case (Cons k ks)
  then show ?case
    by (auto split: option.splits dest: iterate_subset)
qed

lemma iterate_all:
  "k \<in> set ks \<Longrightarrow> getContact cs k \<noteq> None \<Longrightarrow> k \<in> set (iterate cs False False seen ks)"
  by (induction ks arbitrary: seen) (auto split: option.splits)

lemma NewContactIterator_distinct: "distinct (NewContactIterator contacts a b)"
proof -
  have "distinct contactOrder"
    by (simp add: contactOrder_def)
  then show ?thesis
    by (cases contacts) (simp_all add: NewContactIterator_def iterate_distinct)
qed

lemma contactOrder_all: "k \<in> set contactOrder"
  by (cases k) (simp_all add: contactOrder_def)

lemma NewContactIterator_all:
  "vaspContact vasp k \<noteq> None \<Longrightarrow> k \<in> set (NewContactIterator (vasp_Contacts vasp) False False)"
  by (cases "vasp_Contacts vasp")
    (simp_all add: NewContactIterator_def vaspContact_def iterate_all contactOrder_all)

lemma snd_SendReviewRequest:
  "snd (SendReviewRequest e site w vasp)
     = w\<lparr>outbox := outbox w @ (if fails e site then [] else [reviewRequestMail e])\<rparr>"
  by (simp add: SendReviewRequest_def reviewRequestMail_def)

lemma verifyContactReview_Inr:
  assumes "verifyContactReview e w vasp email = (Inr reply, w')"
  shows "\<exists>vasp2 vasp3 log.
           GetAuditLog vasp = Inr log
         \<and> GetAuditLog vasp3 = Inr (log @
             [\<lparr>al_Timestamp = now e, al_PreviousState = VerificationStatus vasp,
               al_CurrentState = EMAIL_VERIFIED,
               al_Description = ''completed email verification'', al_Source = email\<rparr>,
              \<lparr>al_Timestamp = now e, al_PreviousState = EMAIL_VERIFIED,
               al_CurrentState = PENDING_REVIEW,
               al_Description = ''review email sent'', al_Source = email\<rparr>])
         \<and> vasp_Contacts vasp3 = vasp_Contacts vasp \<and> vasp_Id vasp3 = vasp_Id vasp
         \<and> VerificationStatus vasp3 = PENDING_REVIEW
         \<and> GetAdminVerificationToken vasp3 = Inr (fst (CreateToken e w 48))
         \<and> reply = \<lparr>vcr_Status = PENDING_REVIEW,
                     vcr_Message = ''email successfully verified and verification review sent to TRISA admins''\<rparr>
         \<and> vasps w' = put (vasp_Id vasp) vasp3 (put (vasp_Id vasp) vasp2 (vasps w))
         \<and> outbox w' = outbox w @ (if fails e VerifyContact_SendReviewRequest then []
                                   else [reviewRequestMail e])
         \<and> certreqs w' = certreqs w \<and> secrets w' = secrets w"
proof -
  from assms obtain vasp1 vasp2 w1 vasp3 where
    u1: "UpdateVerificationStatus vasp EMAIL_VERIFIED ''completed email verification'' email (now e) = Inr vasp1" and
    st: "SetAdminVerificationToken vasp1 (fst (CreateToken e w 48)) = Inr vasp2" and
    uv1: "UpdateVASP e VerifyContact_UpdateVASP_token (snd (CreateToken e w 48)) vasp2 = (None, w1)" and
    u2: "UpdateVerificationStatus vasp2 PENDING_REVIEW ''review email sent'' email (now e) = Inr vasp3" and
    uv2: "UpdateVASP e VerifyContact_UpdateVASP_review
            (snd (SendReviewRequest e VerifyContact_SendReviewRequest w1 vasp2)) vasp3 = (None, w')" and
    rep: "reply = \<lparr>vcr_Status = VerificationStatus vasp3,
                     vcr_Message = ''email successfully verified and verification review sent to TRISA admins''\<rparr>"
    by (auto simp: verifyContactReview_def Let_def split: sum.splits prod.splits option.splits)
  note a = UpdateVerificationStatus_Inr [OF u1]
  note b = SetAdminVerificationToken_Inr [OF st]
  note c = UpdateVerificationStatus_Inr [OF u2]
  from a(4) obtain log where log: "GetAuditLog vasp = Inr log"
    "GetAuditLog vasp1 = Inr (log @ [\<lparr>al_Timestamp = now e, al_PreviousState = VerificationStatus vasp,
               al_CurrentState = EMAIL_VERIFIED,
               al_Description = ''completed email verification'', al_Source = email\<rparr>])"
    by blast
  have log3: "GetAuditLog vasp3 = Inr (log @
             [\<lparr>al_Timestamp = now e, al_PreviousState = VerificationStatus vasp,
               al_CurrentState = EMAIL_VERIFIED,
               al_Description = ''completed email verification'', al_Source = email\<rparr>,
              \<lparr>al_Timestamp = now e, al_PreviousState = EMAIL_VERIFIED,
               al_CurrentState = PENDING_REVIEW,
               al_Description = ''review email sent'', al_Source = email\<rparr>])"
    using c(4) log(2) b(4) b(3) a(3) by auto
  have w1: "w1 = (snd (CreateToken e w 48))\<lparr>vasps := put (vasp_Id vasp2) vasp2 (vasps (snd (CreateToken e w 48)))\<rparr>"
    using uv1 by (rule UpdateVASP_None)
  have w': "w' = (snd (SendReviewRequest e VerifyContact_SendReviewRequest w1 vasp2))
      \<lparr>vasps := put (vasp_Id vasp3) vasp3 (vasps (snd (SendReviewRequest e VerifyContact_SendReviewRequest w1 vasp2)))\<rparr>"
    using uv2 by (rule UpdateVASP_None)
  have ids: "vasp_Id vasp2 = vasp_Id vasp" "vasp_Id vasp3 = vasp_Id vasp"
    using a b c by simp_all
  have world: "vasps w' = put (vasp_Id vasp) vasp3 (put (vasp_Id vasp) vasp2 (vasps w))"
    "outbox w' = outbox w @ (if fails e VerifyContact_SendReviewRequest then []
                                   else [reviewRequestMail e])"
    "certreqs w' = certreqs w" "secrets w' = secrets w"
    by (simp_all add: w' w1 snd_SendReviewRequest ids CreateToken_def)
  have tok: "GetAdminVerificationToken vasp3 = Inr (fst (CreateToken e w 48))"
    using c(5) b(5) by simp
  show ?thesis
    using log(1) log3 world tok rep a b c
    by (intro exI [of _ vasp2] exI [of _ vasp3] exI [of _ log]) simp
qed

lemma RetrieveVASP_Inr:
  "RetrieveVASP e site w ident = Inr vasp \<Longrightarrow> map_of (vasps w) ident = Some vasp"
  by (auto simp: RetrieveVASP_def split: if_splits option.splits)

text \<open>What a call of \<^verbatim>\<open>VerifyContact\<close> that replies has done.\<close>

lemma VerifyContact_Inr:
  assumes "VerifyContact e w rin = (Inr reply, w1)"
  obtains vasp0 vasp1 prev email where
    "vc_Token rin \<noteq> []"
    "map_of (vasps w) (vc_Id rin) = Some vasp0"
    "verifyContacts (vc_Token rin) (now e) (NewContactIterator (vasp_Contacts vasp0) False False)
       vasp0 0 False [] = Inr (vasp1, prev, True, email)"
    "(prev > 0 \<and> state_number (VerificationStatus vasp1) > state_number SUBMITTED
        \<and> w1 = w\<lparr>vasps := put (vasp_Id vasp1) vasp1 (vasps w)\<rparr>
        \<and> reply = \<lparr>vcr_Status = VerificationStatus vasp1, vcr_Message = ''email successfully verified''\<rparr>)
     \<or> (\<not> (prev > 0 \<and> state_number (VerificationStatus vasp1) > state_number SUBMITTED)
        \<and> verifyContactReview e w vasp1 email = (Inr reply, w1))"
proof -
  from assms have tok: "vc_Token rin \<noteq> []"
    by (auto simp: VerifyContact_def split: if_splits)
  with assms obtain vasp0 where ret: "RetrieveVASP e VerifyContact_RetrieveVASP w (vc_Id rin) = Inr vasp0"
    by (auto simp: VerifyContact_def split: sum.splits)
  with assms tok obtain vasp1 prev found email where
    loop: "verifyContacts (vc_Token rin) (now e) (NewContactIterator (vasp_Contacts vasp0) False False)
       vasp0 0 False [] = Inr (vasp1, prev, found, email)"
    by (auto simp: VerifyContact_def split: sum.splits prod.splits)
  with assms tok ret have found: "found"
    by (auto simp: VerifyContact_def split: if_splits)
  have "(prev > 0 \<and> state_number (VerificationStatus vasp1) > state_number SUBMITTED
        \<and> w1 = w\<lparr>vasps := put (vasp_Id vasp1) vasp1 (vasps w)\<rparr>
        \<and> reply = \<lparr>vcr_Status = VerificationStatus vasp1, vcr_Message = ''email successfully verified''\<rparr>)
     \<or> (\<not> (prev > 0 \<and> state_number (VerificationStatus vasp1) > state_number SUBMITTED)
        \<and> verifyContactReview e w vasp1 email = (Inr reply, w1))"
    using assms tok ret loop found
    by (auto simp: VerifyContact_def split: if_splits prod.splits option.splits dest: UpdateVASP_None)
  moreover from found have "found = True"
    by simp
  ultimately show ?thesis
    using that tok RetrieveVASP_Inr [OF ret] loop by blast
qed

text \<open>A second call with a token that no contact of the stored VASP carries.\<close>

lemma VerifyContact_absent:
  assumes "vc_Token rin \<noteq> []" and "map_of (vasps w) (vc_Id rin) = Some vasp"
    and "\<forall>k. tokenAbsent (vc_Token rin) vasp k"
  shows "\<exists>msg. VerifyContact e w rin = (Inl (Status NotFound msg), w)"
proof (cases "fails e VerifyContact_RetrieveVASP")
  case True
  with assms(1) show ?thesis
    by (simp add: VerifyContact_def RetrieveVASP_def)
next
  case False
  with assms(2) have ret: "RetrieveVASP e VerifyContact_RetrieveVASP w (vc_Id rin) = Inr vasp"
    by (simp add: RetrieveVASP_def)
  have "list_all (tokenAbsent (vc_Token rin) vasp) (NewContactIterator (vasp_Contacts vasp) False False)"
    using assms(3) by (simp add: list_all_iff)
  from verifyContacts_absent [OF this] obtain prev' where
    "verifyContacts (vc_Token rin) (now e) (NewContactIterator (vasp_Contacts vasp) False False)
       vasp 0 False [] = Inr (vasp, prev', False, [])"
    by blast
  with assms(1) ret show ?thesis
    by (simp add: VerifyContact_def)
qed

text \<open>
  C7, as the code has it. When a call of \<^verbatim>\<open>VerifyContact\<close> on a well-keyed store replies,
  its message is one of the two messages of the handler, the stored VASP has no contact
  left that carries the token, and a second call with the same request, whatever fails
  around it, answers \<^verbatim>\<open>NOT_FOUND\<close> and leaves the store, the vault and the outbox as the
  first call left them. The two calls send at most one review request: none when the
  message is \<open>email successfully verified\<close>, and one when it is the other message and
  the mailer did not fail. When no contact of the VASP was verified before, the message
  is the other one.
\<close>

theorem VerifyContact_token_single_use:
  assumes "wellKeyed w" and "VerifyContact e w rin = (Inr reply, w1)"
  shows "(vcr_Message reply = ''email successfully verified''
           \<or> vcr_Message reply = ''email successfully verified and verification review sent to TRISA admins'')
       \<and> (\<exists>vasp. map_of (vasps w1) (vc_Id rin) = Some vasp
             \<and> list_all (tokenAbsent (vc_Token rin) vasp) contactOrder)
       \<and> (\<exists>msg. VerifyContact e2 w1 rin = (Inl (Status NotFound msg), w1))
       \<and> (outbox w1 = outbox w \<or> outbox w1 = outbox w @ [reviewRequestMail e])
       \<and> (vcr_Message reply = ''email successfully verified'' \<longrightarrow> outbox w1 = outbox w)
       \<and> (vcr_Message reply \<noteq> ''email successfully verified''
            \<and> \<not> fails e VerifyContact_SendReviewRequest
          \<longrightarrow> outbox w1 = outbox w @ [reviewRequestMail e])
       \<and> (\<exists>vasp0. map_of (vasps w) (vc_Id rin) = Some vasp0
             \<and> (list_all (\<lambda>k. \<not> contactVerified vasp0 k) contactOrder
                 \<longrightarrow> vcr_Message reply
                       = ''email successfully verified and verification review sent to TRISA admins''))"
proof -
  from assms(2) obtain vasp0 vasp1 prev email where
    tok: "vc_Token rin \<noteq> []" and
    stored: "map_of (vasps w) (vc_Id rin) = Some vasp0" and
    loop: "verifyContacts (vc_Token rin) (now e) (NewContactIterator (vasp_Contacts vasp0) False False)
       vasp0 0 False [] = Inr (vasp1, prev, True, email)" and
    path: "(prev > 0 \<and> state_number (VerificationStatus vasp1) > state_number SUBMITTED
        \<and> w1 = w\<lparr>vasps := put (vasp_Id vasp1) vasp1 (vasps w)\<rparr>
        \<and> reply = \<lparr>vcr_Status = VerificationStatus vasp1, vcr_Message = ''email successfully verified''\<rparr>)
     \<or> (\<not> (prev > 0 \<and> state_number (VerificationStatus vasp1) > state_number SUBMITTED)
        \<and> verifyContactReview e w vasp1 email = (Inr reply, w1))"
    by (rule VerifyContact_Inr)
  have id0: "vasp_Id vasp0 = vc_Id rin"
    using wellKeyed_map_of [OF assms(1) stored] .
  note inv = verifyContacts_Inr [OF loop tok NewContactIterator_distinct]
  have id1: "vasp_Id vasp1 = vc_Id rin"
    using inv id0 by simp
  have abs1: "tokenAbsent (vc_Token rin) vasp1 k" for k
  proof (cases "vaspContact vasp0 k")
    case None
    then have "tokenAbsent (vc_Token rin) vasp0 k"
      by (simp add: tokenAbsent_def)
    with inv show ?thesis by blast
  next
    case (Some c)
    then have "k \<in> set (NewContactIterator (vasp_Contacts vasp0) False False)"
      by (simp add: NewContactIterator_all)
    with inv show ?thesis by blast
  qed
  from path obtain vfinal where
    fin: "map_of (vasps w1) (vc_Id rin) = Some vfinal" "vasp_Contacts vfinal = vasp_Contacts vasp1"
    and msg: "vcr_Message reply = ''email successfully verified'' \<and> outbox w1 = outbox w
       \<or> vcr_Message reply = ''email successfully verified and verification review sent to TRISA admins''
         \<and> outbox w1 = outbox w @ (if fails e VerifyContact_SendReviewRequest then []
                                   else [reviewRequestMail e])"
  proof
    assume a: "prev > 0 \<and> state_number (VerificationStatus vasp1) > state_number SUBMITTED
        \<and> w1 = w\<lparr>vasps := put (vasp_Id vasp1) vasp1 (vasps w)\<rparr>
        \<and> reply = \<lparr>vcr_Status = VerificationStatus vasp1, vcr_Message = ''email successfully verified''\<rparr>"
    show ?thesis
      by (rule that [of vasp1]) (use a id1 in \<open>simp_all add: map_of_put\<close>)
  next
    assume "\<not> (prev > 0 \<and> state_number (VerificationStatus vasp1) > state_number SUBMITTED)
        \<and> verifyContactReview e w vasp1 email = (Inr reply, w1)"
    then have "verifyContactReview e w vasp1 email = (Inr reply, w1)"
      by simp
    from verifyContactReview_Inr [OF this] obtain vasp2 vasp3 where
      r: "vasp_Contacts vasp3 = vasp_Contacts vasp1"
      "reply = \<lparr>vcr_Status = PENDING_REVIEW,
                     vcr_Message = ''email successfully verified and verification review sent to TRISA admins''\<rparr>"
      "vasps w1 = put (vasp_Id vasp1) vasp3 (put (vasp_Id vasp1) vasp2 (vasps w))"
      "outbox w1 = outbox w @ (if fails e VerifyContact_SendReviewRequest then []
                                   else [reviewRequestMail e])"
      by blast
    show ?thesis
      by (rule that [of vasp3]) (use r id1 in \<open>simp_all add: map_of_put\<close>)
  qed
  have absf: "\<forall>k. tokenAbsent (vc_Token rin) vfinal k"
    using abs1 tokenAbsent_cong [OF fin(2)] by simp
  have second: "\<exists>msg. VerifyContact e2 w1 rin = (Inl (Status NotFound msg), w1)"
    using VerifyContact_absent [OF tok fin(1) absf] .
  have cleared: "\<exists>vasp. map_of (vasps w1) (vc_Id rin) = Some vasp
             \<and> list_all (tokenAbsent (vc_Token rin) vasp) contactOrder"
    using fin(1) absf by (auto simp: list_all_iff)
  have first: "list_all (\<lambda>k. \<not> contactVerified vasp0 k) contactOrder
                 \<longrightarrow> vcr_Message reply
                       = ''email successfully verified and verification review sent to TRISA admins''"
  proof
    assume "list_all (\<lambda>k. \<not> contactVerified vasp0 k) contactOrder"
    then have "list_all (\<lambda>k. \<not> contactVerified vasp0 k)
                 (NewContactIterator (vasp_Contacts vasp0) False False)"
      using contactOrder_all by (simp add: list_all_iff)
    with inv have "prev = 0"
      by blast
    with path have "verifyContactReview e w vasp1 email = (Inr reply, w1)"
      by simp
    from verifyContactReview_Inr [OF this]
    show "vcr_Message reply
            = ''email successfully verified and verification review sent to TRISA admins''"
      by auto
  qed
  have before: "\<exists>vasp0. map_of (vasps w) (vc_Id rin) = Some vasp0
             \<and> (list_all (\<lambda>k. \<not> contactVerified vasp0 k) contactOrder
                 \<longrightarrow> vcr_Message reply
                       = ''email successfully verified and verification review sent to TRISA admins'')"
    using stored first by blast
  have mails: "(outbox w1 = outbox w \<or> outbox w1 = outbox w @ [reviewRequestMail e])
       \<and> (vcr_Message reply = ''email successfully verified'' \<longrightarrow> outbox w1 = outbox w)
       \<and> (vcr_Message reply \<noteq> ''email successfully verified''
            \<and> \<not> fails e VerifyContact_SendReviewRequest
          \<longrightarrow> outbox w1 = outbox w @ [reviewRequestMail e])"
    using msg by (auto split: if_splits)
  have which: "vcr_Message reply = ''email successfully verified''
           \<or> vcr_Message reply = ''email successfully verified and verification review sent to TRISA admins''"
    using msg by blast
  show ?thesis
    using which cleared second mails before by blast
qed

lemma GetAuditLog_Inl_Update:
  "GetAuditLog vasp = Inl err \<Longrightarrow> UpdateVerificationStatus vasp st d s ts = Inl err"
  by (auto simp: GetAuditLog_def UpdateVerificationStatus_def split: sum.splits)

lemma verifyContacts_undecodable:
  "GetAuditLog vasp = Inl err \<Longrightarrow>
   verifyContacts token ts ks vasp prev found email = Inr (vasp', prev', found', email') \<Longrightarrow>
   vasp' = vasp \<and> found' = found"
proof (induction ks arbitrary: prev found email)
  case Nil
  then show ?case by simp
next
  case (Cons k ks)
  show ?case
  proof (cases "vaspContact vasp k")
    case None
    with Cons show ?thesis by simp
  next
    case (Some contact)
    from Cons.prems(2) Some obtain t v where gv: "GetContactVerification contact = Inr (t, v)"
      by (auto split: sum.splits)
    show ?thesis
    proof (cases "t = token")
      case True
      have "\<And>c. UpdateVerificationStatus (setVaspContact vasp k c) (VerificationStatus vasp)
               ''contact verified'' (Email c) ts = Inl err"
        using Cons.prems(1) by (simp add: GetAuditLog_Inl_Update GetAuditLog_setVaspContact)
      with Cons.prems(2) Some gv True show ?thesis
        by (auto split: sum.splits)
    next
      case False
      with Cons Some gv show ?thesis
        by (auto split: if_splits)
    qed
  qed
qed

text \<open>
  C8, as the code has it. When a call of \<^verbatim>\<open>VerifyContact\<close> replies for a VASP none of
  whose contacts was verified before, the reply carries \<^verbatim>\<open>PENDING_REVIEW\<close>, the stored
  VASP is in \<^verbatim>\<open>PENDING_REVIEW\<close> and holds an admin verification token of 48 bytes, its
  audit log has gained the entries of the verified contacts and then the transitions
  from the state the VASP was in to \<^verbatim>\<open>EMAIL_VERIFIED\<close> and from \<^verbatim>\<open>EMAIL_VERIFIED\<close> to
  \<^verbatim>\<open>PENDING_REVIEW\<close>, and the review request was handed to the mailer once, in the outbox
  unless the mailer failed. The state the VASP was in is \<^verbatim>\<open>SUBMITTED\<close> after a
  registration, and the handler does not ask for it.
\<close>

theorem VerifyContact_first_verification:
  assumes "VerifyContact e w rin = (Inr reply, w1)"
    and "map_of (vasps w) (vc_Id rin) = Some vasp" and "vasp_Id vasp = vc_Id rin"
    and "list_all (\<lambda>k. \<not> contactVerified vasp k) contactOrder"
  shows "vcr_Status reply = PENDING_REVIEW
       \<and> (\<exists>vasp' log cv email token.
             map_of (vasps w1) (vc_Id rin) = Some vasp'
           \<and> VerificationStatus vasp' = PENDING_REVIEW
           \<and> GetAuditLog vasp = Inr log
           \<and> GetAuditLog vasp' = Inr (log @ cv @
               [\<lparr>al_Timestamp = now e, al_PreviousState = VerificationStatus vasp,
                 al_CurrentState = EMAIL_VERIFIED,
                 al_Description = ''completed email verification'', al_Source = email\<rparr>,
                \<lparr>al_Timestamp = now e, al_PreviousState = EMAIL_VERIFIED,
                 al_CurrentState = PENDING_REVIEW,
                 al_Description = ''review email sent'', al_Source = email\<rparr>])
           \<and> list_all (\<lambda>en. al_PreviousState en = VerificationStatus vasp
                              \<and> al_CurrentState en = VerificationStatus vasp) cv
           \<and> GetAdminVerificationToken vasp' = Inr token \<and> length token = 48)
       \<and> outbox w1 = outbox w @ (if fails e VerifyContact_SendReviewRequest then []
                                 else [reviewRequestMail e])"
proof -
  from assms(1) obtain vasp0 vasp1 prev email where
    tok: "vc_Token rin \<noteq> []" and
    stored: "map_of (vasps w) (vc_Id rin) = Some vasp0" and
    loop: "verifyContacts (vc_Token rin) (now e) (NewContactIterator (vasp_Contacts vasp0) False False)
       vasp0 0 False [] = Inr (vasp1, prev, True, email)" and
    path: "(prev > 0 \<and> state_number (VerificationStatus vasp1) > state_number SUBMITTED
        \<and> w1 = w\<lparr>vasps := put (vasp_Id vasp1) vasp1 (vasps w)\<rparr>
        \<and> reply = \<lparr>vcr_Status = VerificationStatus vasp1, vcr_Message = ''email successfully verified''\<rparr>)
     \<or> (\<not> (prev > 0 \<and> state_number (VerificationStatus vasp1) > state_number SUBMITTED)
        \<and> verifyContactReview e w vasp1 email = (Inr reply, w1))"
    by (rule VerifyContact_Inr)
  from stored assms(2) have v0: "vasp0 = vasp"
    by simp
  note inv = verifyContacts_Inr [OF loop tok NewContactIterator_distinct, unfolded v0]
  have "list_all (\<lambda>k. \<not> contactVerified vasp k) (NewContactIterator (vasp_Contacts vasp) False False)"
    using assms(4) contactOrder_all by (simp add: list_all_iff)
  with inv have prev: "prev = 0"
    by blast
  with path have rev: "verifyContactReview e w vasp1 email = (Inr reply, w1)"
    by simp
  from verifyContactReview_Inr [OF rev] obtain vasp2 vasp3 log1 where
    r: "GetAuditLog vasp1 = Inr log1"
      "GetAuditLog vasp3 = Inr (log1 @
             [\<lparr>al_Timestamp = now e, al_PreviousState = VerificationStatus vasp1,
               al_CurrentState = EMAIL_VERIFIED,
               al_Description = ''completed email verification'', al_Source = email\<rparr>,
              \<lparr>al_Timestamp = now e, al_PreviousState = EMAIL_VERIFIED,
               al_CurrentState = PENDING_REVIEW,
               al_Description = ''review email sent'', al_Source = email\<rparr>])"
      "vasp_Id vasp3 = vasp_Id vasp1" "VerificationStatus vasp3 = PENDING_REVIEW"
      "GetAdminVerificationToken vasp3 = Inr (fst (CreateToken e w 48))"
      "reply = \<lparr>vcr_Status = PENDING_REVIEW,
                     vcr_Message = ''email successfully verified and verification review sent to TRISA admins''\<rparr>"
      "vasps w1 = put (vasp_Id vasp1) vasp3 (put (vasp_Id vasp1) vasp2 (vasps w))"
      "outbox w1 = outbox w @ (if fails e VerifyContact_SendReviewRequest then []
                                   else [reviewRequestMail e])"
    by blast
  have st1: "VerificationStatus vasp1 = VerificationStatus vasp"
    and id1: "vasp_Id vasp1 = vc_Id rin"
    using inv assms(3) by simp_all
  obtain log where log: "GetAuditLog vasp = Inr log"
  proof (cases "GetAuditLog vasp")
    case (Inl err)
    from verifyContacts_undecodable [OF _ loop, unfolded v0, OF Inl] r(1) Inl show ?thesis
      by simp
  next
    case (Inr l)
    then show ?thesis using that by blast
  qed
  with inv obtain cv where cv: "GetAuditLog vasp1 = Inr (log @ cv)"
    "list_all (\<lambda>en. al_PreviousState en = VerificationStatus vasp
                                \<and> al_CurrentState en = VerificationStatus vasp) cv"
    by blast
  have stored': "map_of (vasps w1) (vc_Id rin) = Some vasp3"
    using r(7) id1 by (simp add: map_of_put)
  have "\<exists>vasp' log cv email token.
             map_of (vasps w1) (vc_Id rin) = Some vasp'
           \<and> VerificationStatus vasp' = PENDING_REVIEW
           \<and> GetAuditLog vasp = Inr log
           \<and> GetAuditLog vasp' = Inr (log @ cv @
               [\<lparr>al_Timestamp = now e, al_PreviousState = VerificationStatus vasp,
                 al_CurrentState = EMAIL_VERIFIED,
                 al_Description = ''completed email verification'', al_Source = email\<rparr>,
                \<lparr>al_Timestamp = now e, al_PreviousState = EMAIL_VERIFIED,
                 al_CurrentState = PENDING_REVIEW,
                 al_Description = ''review email sent'', al_Source = email\<rparr>])
           \<and> list_all (\<lambda>en. al_PreviousState en = VerificationStatus vasp
                              \<and> al_CurrentState en = VerificationStatus vasp) cv
           \<and> GetAdminVerificationToken vasp' = Inr token \<and> length token = 48"
    using stored' r(4) log r(2) cv r(5) st1 r(1) CreateToken_length [of e w 48]
    by (intro exI [of _ vasp3] exI [of _ log] exI [of _ cv] exI [of _ email]
        exI [of _ "fst (CreateToken e w 48)"]) simp
  then show ?thesis
    using r(6,8) by simp
qed

lemma registeredWorld_wellKeyed: "wellKeyed registeredWorld"
  by code_simp

lemma VerifyContact_example_reply:
  "fst (VerifyContact exampleEnv registeredWorld exampleVerify) = Inr exampleVerifyReply"
  by code_simp

lemma VerifyContact_example:
  "VerifyContact exampleEnv registeredWorld exampleVerify = (Inr exampleVerifyReply, verifiedWorld)"
  using VerifyContact_example_reply by (simp add: verifiedWorld_def prod_eq_iff)

lemma registeredVASP_stored:
  "map_of (vasps registeredWorld) (vc_Id exampleVerify) = Some registeredVASP"
  by code_simp

lemma registeredVASP_fresh:
  "vasp_Id registeredVASP = vc_Id exampleVerify
   \<and> list_all (\<lambda>k. \<not> contactVerified registeredVASP k) contactOrder
   \<and> VerificationStatus registeredVASP = SUBMITTED"
  by code_simp

theorem VerifyContact_token_single_use_witness:
  "wellKeyed registeredWorld
   \<and> VerifyContact exampleEnv registeredWorld exampleVerify = (Inr exampleVerifyReply, verifiedWorld)
   \<and> (\<exists>vasp. map_of (vasps verifiedWorld) (vc_Id exampleVerify) = Some vasp
         \<and> list_all (tokenAbsent (vc_Token exampleVerify) vasp) contactOrder)
   \<and> (\<exists>msg. VerifyContact exampleEnv verifiedWorld exampleVerify
              = (Inl (Status NotFound msg), verifiedWorld))
   \<and> outbox verifiedWorld = outbox registeredWorld @ [reviewRequestMail exampleEnv]
   \<and> list_all (\<lambda>k. \<not> contactVerified registeredVASP k) contactOrder
   \<and> vcr_Message exampleVerifyReply
       = ''email successfully verified and verification review sent to TRISA admins''"
proof -
  have m: "vcr_Message exampleVerifyReply \<noteq> ''email successfully verified''"
    by (simp add: exampleVerifyReply_def)
  have f: "\<not> fails exampleEnv VerifyContact_SendReviewRequest"
    by (simp add: exampleEnv_def)
  show ?thesis
    using VerifyContact_token_single_use
            [OF registeredWorld_wellKeyed VerifyContact_example, where ?e2.0 = exampleEnv]
      registeredWorld_wellKeyed VerifyContact_example m f registeredVASP_stored
      registeredVASP_fresh
    by auto
qed

text \<open>
  The first verification of the registered contact replies with the longer message, and
  with a mailer that fails the call replies all the same and no review request is sent.
\<close>

theorem VerifyContact_message_counterexample:
  "fst (VerifyContact exampleEnv registeredWorld exampleVerify)
     = Inr \<lparr>vcr_Status = PENDING_REVIEW,
            vcr_Message = ''email successfully verified and verification review sent to TRISA admins''\<rparr>
   \<and> ''email successfully verified and verification review sent to TRISA admins''
       \<noteq> ''email successfully verified''
   \<and> fst (VerifyContact mailDownEnv registeredWorld exampleVerify)
     = Inr \<lparr>vcr_Status = PENDING_REVIEW,
            vcr_Message = ''email successfully verified and verification review sent to TRISA admins''\<rparr>
   \<and> outbox (snd (VerifyContact mailDownEnv registeredWorld exampleVerify)) = outbox registeredWorld"
  by code_simp

theorem VerifyContact_first_verification_witness:
  "VerifyContact exampleEnv registeredWorld exampleVerify = (Inr exampleVerifyReply, verifiedWorld)
   \<and> map_of (vasps registeredWorld) (vc_Id exampleVerify) = Some registeredVASP
   \<and> list_all (\<lambda>k. \<not> contactVerified registeredVASP k) contactOrder
   \<and> VerificationStatus registeredVASP = SUBMITTED
   \<and> vcr_Status exampleVerifyReply = PENDING_REVIEW
   \<and> (\<exists>vasp' log cv email token.
             map_of (vasps verifiedWorld) (vc_Id exampleVerify) = Some vasp'
           \<and> VerificationStatus vasp' = PENDING_REVIEW
           \<and> GetAuditLog registeredVASP = Inr log
           \<and> GetAuditLog vasp' = Inr (log @ cv @
               [\<lparr>al_Timestamp = now exampleEnv, al_PreviousState = SUBMITTED,
                 al_CurrentState = EMAIL_VERIFIED,
                 al_Description = ''completed email verification'', al_Source = email\<rparr>,
                \<lparr>al_Timestamp = now exampleEnv, al_PreviousState = EMAIL_VERIFIED,
                 al_CurrentState = PENDING_REVIEW,
                 al_Description = ''review email sent'', al_Source = email\<rparr>])
           \<and> list_all (\<lambda>en. al_PreviousState en = SUBMITTED \<and> al_CurrentState en = SUBMITTED) cv
           \<and> GetAdminVerificationToken vasp' = Inr token \<and> length token = 48)
   \<and> outbox verifiedWorld = outbox registeredWorld @ [reviewRequestMail exampleEnv]"
proof -
  have f: "\<not> fails exampleEnv VerifyContact_SendReviewRequest"
    by (simp add: exampleEnv_def)
  show ?thesis
    using VerifyContact_first_verification
            [OF VerifyContact_example registeredVASP_stored
                registeredVASP_fresh [THEN conjunct1]
                registeredVASP_fresh [THEN conjunct2, THEN conjunct1]]
      VerifyContact_example registeredVASP_stored registeredVASP_fresh f
    by simp
qed

text \<open>
  A VASP in \<^verbatim>\<open>REJECTED\<close> none of whose contacts was verified: the call replies with
  \<^verbatim>\<open>PENDING_REVIEW\<close>, and the audit log of the stored VASP records the transition from
  \<^verbatim>\<open>REJECTED\<close>, not from \<^verbatim>\<open>SUBMITTED\<close>, to \<^verbatim>\<open>EMAIL_VERIFIED\<close>.
\<close>

theorem VerifyContact_first_verification_counterexample:
  "map_of (vasps rejectedWorld) (vc_Id exampleVerify) = Some rejectedVASP
   \<and> VerificationStatus rejectedVASP = REJECTED
   \<and> map (contactVerified rejectedVASP) contactOrder = [False, False, False, False]
   \<and> fst (VerifyContact exampleEnv rejectedWorld exampleVerify) = Inr exampleVerifyReply
   \<and> map_option auditTransitions
       (map_of (vasps (snd (VerifyContact exampleEnv rejectedWorld exampleVerify))) ''uuid-a'')
     = Some [(NO_VERIFICATION, SUBMITTED), (REJECTED, REJECTED),
             (REJECTED, EMAIL_VERIFIED), (EMAIL_VERIFIED, PENDING_REVIEW)]
   \<and> REJECTED \<noteq> SUBMITTED"
  by code_simp

section \<open>Ticks of the certificate manager\<close>

lemma transition_eq:
  "transition e r state reason =
     r\<lparr>cr_Status := state,
       cr_AuditLog := cr_AuditLog r @ [\<lparr>crl_Timestamp = now e, crl_PreviousState = cr_Status r,
           crl_CurrentState = state, crl_Description = reason, crl_Source = ''automated''\<rparr>]\<rparr>"
  by (simp add: transition_def UpdateCertificateRequestStatus_def)

text \<open>
  C3. A tick on a request in \<^verbatim>\<open>READY_TO_SUBMIT\<close> whose VASP is in none of the states
  \<^verbatim>\<open>REVIEWED\<close>, \<^verbatim>\<open>ISSUING_CERTIFICATE\<close>, \<^verbatim>\<open>VERIFIED\<close> stores the request as \<^verbatim>\<open>CR_REJECTED\<close>,
  with the audit entry of that transition, and makes no call to the certificate
  authority.
\<close>

theorem tick_rejects_invalid_VASP:
  assumes "map_of (certreqs w) rid = Some r" and "cr_Id r = rid"
    and "cr_Status r = READY_TO_SUBMIT"
    and "map_of (vasps w) (cr_Vasp r) = Some vasp"
    and "\<not> validForSubmission (VerificationStatus vasp)"
  shows "\<exists>w' r'. tickRequest e c mailerFails w rid = (w', [])
           \<and> map_of (certreqs w') rid = Some r'
           \<and> cr_Status r' = CR_REJECTED
           \<and> cr_AuditLog r' = cr_AuditLog r @
                [\<lparr>crl_Timestamp = now e, crl_PreviousState = READY_TO_SUBMIT,
                  crl_CurrentState = CR_REJECTED,
                  crl_Description = ''vasp not in valid state for submission'',
                  crl_Source = ''automated''\<rparr>]"
  using assms
  by (simp add: tickRequest_def tickReadyToSubmit_def storeCertReq_def transition_eq map_of_put)

text \<open>
  C4, for a VASP that may be submitted. A tick on a request in \<^verbatim>\<open>READY_TO_SUBMIT\<close> whose
  VASP is in \<^verbatim>\<open>REVIEWED\<close>, \<^verbatim>\<open>ISSUING_CERTIFICATE\<close> or \<^verbatim>\<open>VERIFIED\<close>, when the available balance
  is 0, leaves every certificate request as it is and submits no batch. A VASP that is
  not in \<^verbatim>\<open>REVIEWED\<close> is left as it is, with the whole state; a VASP in \<^verbatim>\<open>REVIEWED\<close> is
  either left as it is or stored in \<^verbatim>\<open>ISSUING_CERTIFICATE\<close> with one more audit entry,
  by \<open>automated\<close>, and no other change.
\<close>

theorem tick_without_balance:
  assumes "map_of (certreqs w) rid = Some r"
    and "cr_Status r = READY_TO_SUBMIT"
    and "map_of (vasps w) (cr_Vasp r) = Some vasp"
    and "validForSubmission (VerificationStatus vasp)"
    and "UserAvailableBalance c = Inr 0"
    and "tickRequest e c mailerFails w rid = (w', calls)"
  shows "certreqs w' = certreqs w \<and> Call_Batch \<notin> set calls
       \<and> (VerificationStatus vasp \<noteq> REVIEWED \<longrightarrow> w' = w)
       \<and> (VerificationStatus vasp = REVIEWED \<longrightarrow>
            w' = w
            \<or> (\<exists>vasp' log. w' = w\<lparr>vasps := put (vasp_Id vasp) vasp' (vasps w)\<rparr>
                 \<and> VerificationStatus vasp' = ISSUING_CERTIFICATE
                 \<and> GetAuditLog vasp = Inr log
                 \<and> GetAuditLog vasp' = Inr (log @
                      [\<lparr>al_Timestamp = now e, al_PreviousState = REVIEWED,
                        al_CurrentState = ISSUING_CERTIFICATE,
                        al_Description = ''issuing certificate'', al_Source = ''automated''\<rparr>])
                 \<and> GetAdminVerificationToken vasp' = GetAdminVerificationToken vasp
                 \<and> GetCertReqIDs vasp' = GetCertReqIDs vasp
                 \<and> vasp'\<lparr>VerificationStatus := VerificationStatus vasp, vasp_Extra := vasp_Extra vasp\<rparr>
                     = vasp))"
proof (cases "VerificationStatus vasp = REVIEWED")
  case False
  with assms show ?thesis
    by (auto simp: tickRequest_def tickReadyToSubmit_def split: sum.splits)
next
  case True
  show ?thesis
  proof (cases "UpdateVerificationStatus vasp ISSUING_CERTIFICATE
                                ''issuing certificate'' ''automated'' (now e)")
    case (Inl err)
    with assms True show ?thesis
      by (auto simp: tickRequest_def tickReadyToSubmit_def)
  next
    case (Inr vasp1)
    from Inr have facts: "VerificationStatus vasp1 = ISSUING_CERTIFICATE"
      "vasp_Id vasp1 = vasp_Id vasp"
      "\<exists>log. GetAuditLog vasp = Inr log \<and> GetAuditLog vasp1 = Inr (log @
                      [\<lparr>al_Timestamp = now e, al_PreviousState = REVIEWED,
                        al_CurrentState = ISSUING_CERTIFICATE,
                        al_Description = ''issuing certificate'', al_Source = ''automated''\<rparr>])"
      "GetAdminVerificationToken vasp1 = GetAdminVerificationToken vasp"
      "GetCertReqIDs vasp1 = GetCertReqIDs vasp"
      "vasp1\<lparr>VerificationStatus := VerificationStatus vasp, vasp_Extra := vasp_Extra vasp\<rparr> = vasp"
      using True
      by (auto simp: UpdateVerificationStatus_def GetAuditLog_def GetAdminVerificationToken_def
          GetCertReqIDs_def decodeVASPExtra_def split: sum.splits option.splits VASPExtra.splits)
    have w': "w' = storeVASP w vasp1" and calls: "Call_Batch \<notin> set calls"
      using assms True Inr
      by (auto simp: tickRequest_def tickReadyToSubmit_def split: sum.splits)
    show ?thesis
      using w' calls facts True by (auto simp: storeVASP_def)
  qed
qed

lemma logRejection_frame:
  "vasp_Id (logRejection ts k vasp) = vasp_Id vasp
   \<and> VerificationStatus (logRejection ts k vasp) = VerificationStatus vasp
   \<and> vasp_Extra (logRejection ts k vasp) = vasp_Extra vasp"
  by (simp add: logRejection_def setVaspContact_def split: option.splits)

lemma fold_logRejection_frame:
  "vasp_Id (fold (logRejection ts) ks vasp) = vasp_Id vasp
   \<and> VerificationStatus (fold (logRejection ts) ks vasp) = VerificationStatus vasp
   \<and> vasp_Extra (fold (logRejection ts) ks vasp) = vasp_Extra vasp"
  by (induction ks arbitrary: vasp) (simp_all add: logRejection_frame)

lemma GetAuditLog_cong: "vasp_Extra a = vasp_Extra b \<Longrightarrow> GetAuditLog a = GetAuditLog b"
  by (simp add: GetAuditLog_def decodeVASPExtra_def)

lemma SendRejection_frame:
  assumes "map_of (vasps w) (vasp_Id vasp) = Some vasp"
  shows "certreqs (SendRejection e mailerFails w vasp) = certreqs w
       \<and> (\<exists>vasp'. map_of (vasps (SendRejection e mailerFails w vasp)) (vasp_Id vasp) = Some vasp'
             \<and> VerificationStatus vasp' = VerificationStatus vasp
             \<and> GetAuditLog vasp' = GetAuditLog vasp)"
  using assms fold_logRejection_frame [of "now e" "rejectionRecipients vasp" vasp]
  by (auto simp: SendRejection_def storeVASP_def map_of_put intro: GetAuditLog_cong)

text \<open>
  C5. A tick on a request in \<^verbatim>\<open>PROCESSING\<close> whose batch has no active and no successful
  certificate, has failed ones, and has the status \<^verbatim>\<open>REJECTED\<close> at the authority, stores
  the request as \<^verbatim>\<open>CR_REJECTED\<close> with one more audit entry, from \<^verbatim>\<open>PROCESSING\<close> to
  \<^verbatim>\<open>CR_REJECTED\<close> by \<open>automated\<close>; the VASP stays in \<^verbatim>\<open>ISSUING_CERTIFICATE\<close> and its audit
  log is as it was.
\<close>

theorem tick_batch_rejected:
  assumes "map_of (certreqs w) rid = Some r" and "cr_Id r = rid" and "cr_Status r = PROCESSING"
    and "BatchProcessingInfo c (cr_BatchId r) = Inr info"
    and "pi_Active info = 0" and "pi_Success info = 0" and "pi_Failed info > 0"
    and "BatchDetail c (cr_BatchId r) = Inr d" and "br_Status d = ''REJECTED''"
    and "map_of (vasps w) (cr_Vasp r) = Some vasp" and "vasp_Id vasp = cr_Vasp r"
    and "VerificationStatus vasp = ISSUING_CERTIFICATE"
    and "tickRequest e c mailerFails w rid = (w', calls)"
  shows "\<exists>r' en vasp'.
           map_of (certreqs w') rid = Some r'
         \<and> cr_Status r' = CR_REJECTED
         \<and> cr_AuditLog r' = cr_AuditLog r @ [en]
         \<and> crl_PreviousState en = PROCESSING \<and> crl_CurrentState en = CR_REJECTED
         \<and> crl_Source en = ''automated''
         \<and> map_of (vasps w') (cr_Vasp r) = Some vasp'
         \<and> VerificationStatus vasp' = ISSUING_CERTIFICATE
         \<and> GetAuditLog vasp' = GetAuditLog vasp"
proof -
  let ?r1 = "transition e (r\<lparr>cr_BatchStatus := br_Status d, cr_BatchName := br_BatchName d,
                              cr_RejectReason := br_RejectReason d\<rparr>)
               CR_REJECTED ''certificate request rejected''"
  let ?w1 = "storeCertReq w ?r1"
  have cb: "consultBatch c (cr_BatchId r) = (Some d, [Call_BatchDetail])"
    using assms(8,9) by (simp add: consultBatch_def)
  have w': "w' = SendRejection e mailerFails ?w1 vasp"
    using assms cb by (simp add: tickRequest_def tickProcessing_def Let_def storeCertReq_def)
  have v1: "map_of (vasps ?w1) (vasp_Id vasp) = Some vasp"
    using assms(10,11) by (simp add: storeCertReq_def)
  have r1: "map_of (certreqs ?w1) rid = Some ?r1"
    using assms(2) by (simp add: storeCertReq_def map_of_put transition_eq)
  from SendRejection_frame [OF v1, of e mailerFails] obtain vasp' where
    f: "certreqs w' = certreqs ?w1" "map_of (vasps w') (vasp_Id vasp) = Some vasp'"
    "VerificationStatus vasp' = VerificationStatus vasp" "GetAuditLog vasp' = GetAuditLog vasp"
    unfolding w' by blast
  show ?thesis
    using f r1 assms(3,11,12)
    by (intro exI [of _ ?r1] exI [of _ vasp']
        exI [of _ "\<lparr>crl_Timestamp = now e, crl_PreviousState = PROCESSING,
                    crl_CurrentState = CR_REJECTED,
                    crl_Description = ''certificate request rejected'',
                    crl_Source = ''automated''\<rparr>"])
      (simp add: transition_eq)
qed

lemma readyWorld_facts:
  "map_of (certreqs readyWorld) ''uuid-b'' = Some readyRequest
   \<and> cr_Id readyRequest = ''uuid-b''
   \<and> cr_Status readyRequest = READY_TO_SUBMIT
   \<and> map_of (vasps readyWorld) (cr_Vasp readyRequest) = Some pendingVASP
   \<and> VerificationStatus pendingVASP = PENDING_REVIEW"
  by code_simp

theorem tick_rejects_invalid_VASP_witness:
  "map_of (certreqs readyWorld) ''uuid-b'' = Some readyRequest
   \<and> cr_Status readyRequest = READY_TO_SUBMIT
   \<and> map_of (vasps readyWorld) (cr_Vasp readyRequest) = Some pendingVASP
   \<and> VerificationStatus pendingVASP = PENDING_REVIEW
   \<and> (\<exists>w' r'. tickRequest exampleEnv exampleCA False readyWorld ''uuid-b'' = (w', [])
           \<and> map_of (certreqs w') ''uuid-b'' = Some r'
           \<and> cr_Status r' = CR_REJECTED
           \<and> cr_AuditLog r' = cr_AuditLog readyRequest @
                [\<lparr>crl_Timestamp = now exampleEnv, crl_PreviousState = READY_TO_SUBMIT,
                  crl_CurrentState = CR_REJECTED,
                  crl_Description = ''vasp not in valid state for submission'',
                  crl_Source = ''automated''\<rparr>])"
proof -
  have nv: "\<not> validForSubmission (VerificationStatus pendingVASP)"
    using readyWorld_facts by (simp add: validForSubmission_def)
  show ?thesis
    using tick_rejects_invalid_VASP
            [of readyWorld "''uuid-b''" readyRequest pendingVASP exampleEnv exampleCA False]
      readyWorld_facts nv
    by blast
qed

lemma reviewedWorld_facts:
  "map_of (certreqs reviewedWorld) ''uuid-b'' = Some readyRequest
   \<and> map_of (vasps reviewedWorld) (cr_Vasp readyRequest) = Some reviewedVASP
   \<and> VerificationStatus reviewedVASP = REVIEWED
   \<and> UserAvailableBalance exampleCA = Inr 0
   \<and> fst (tickRequest exampleEnv exampleCA False reviewedWorld ''uuid-b'') \<noteq> reviewedWorld"
  by code_simp

theorem tick_without_balance_witness:
  "map_of (certreqs reviewedWorld) ''uuid-b'' = Some readyRequest
   \<and> cr_Status readyRequest = READY_TO_SUBMIT
   \<and> map_of (vasps reviewedWorld) (cr_Vasp readyRequest) = Some reviewedVASP
   \<and> VerificationStatus reviewedVASP = REVIEWED
   \<and> UserAvailableBalance exampleCA = Inr 0
   \<and> certreqs (fst (tickRequest exampleEnv exampleCA False reviewedWorld ''uuid-b''))
       = certreqs reviewedWorld
   \<and> Call_Batch \<notin> set (snd (tickRequest exampleEnv exampleCA False reviewedWorld ''uuid-b''))
   \<and> (\<exists>vasp' log.
         fst (tickRequest exampleEnv exampleCA False reviewedWorld ''uuid-b'')
           = reviewedWorld\<lparr>vasps := put (vasp_Id reviewedVASP) vasp' (vasps reviewedWorld)\<rparr>
       \<and> VerificationStatus vasp' = ISSUING_CERTIFICATE
       \<and> GetAuditLog reviewedVASP = Inr log
       \<and> GetAuditLog vasp' = Inr (log @
            [\<lparr>al_Timestamp = now exampleEnv, al_PreviousState = REVIEWED,
              al_CurrentState = ISSUING_CERTIFICATE,
              al_Description = ''issuing certificate'', al_Source = ''automated''\<rparr>]))"
proof -
  have v: "validForSubmission (VerificationStatus reviewedVASP)"
    using reviewedWorld_facts by (simp add: validForSubmission_def)
  have t: "tickRequest exampleEnv exampleCA False reviewedWorld ''uuid-b''
             = (fst (tickRequest exampleEnv exampleCA False reviewedWorld ''uuid-b''),
                snd (tickRequest exampleEnv exampleCA False reviewedWorld ''uuid-b''))"
    by simp
  show ?thesis
    using tick_without_balance
            [OF _ _ _ v _ t, of readyRequest]
      reviewedWorld_facts readyWorld_facts
    by blast
qed

text \<open>
  With the VASP in \<^verbatim>\<open>PENDING_REVIEW\<close> and no balance, the tick does not leave the request
  in \<^verbatim>\<open>READY_TO_SUBMIT\<close>: it rejects it.
\<close>

theorem tick_without_balance_counterexample:
  "map_option cr_Status (map_of (certreqs readyWorld) ''uuid-b'') = Some READY_TO_SUBMIT
   \<and> UserAvailableBalance exampleCA = Inr 0
   \<and> map_option cr_Status
       (map_of (certreqs (fst (tickRequest exampleEnv exampleCA False readyWorld ''uuid-b'')))
          ''uuid-b'')
     = Some CR_REJECTED
   \<and> CR_REJECTED \<noteq> READY_TO_SUBMIT"
  by code_simp

lemma processingWorld_facts:
  "map_of (certreqs processingWorld) ''uuid-b'' = Some processingRequest
   \<and> cr_Id processingRequest = ''uuid-b''
   \<and> cr_Status processingRequest = PROCESSING
   \<and> BatchProcessingInfo exampleCA (cr_BatchId processingRequest)
       = Inr \<lparr>pi_Active = 0, pi_Success = 0, pi_Failed = 1\<rparr>
   \<and> br_Status (projr (BatchDetail exampleCA (cr_BatchId processingRequest))) = ''REJECTED''
   \<and> \<not> isl (BatchDetail exampleCA (cr_BatchId processingRequest))
   \<and> map_of (vasps processingWorld) (cr_Vasp processingRequest) = Some issuingVASP
   \<and> vasp_Id issuingVASP = cr_Vasp processingRequest
   \<and> VerificationStatus issuingVASP = ISSUING_CERTIFICATE"
  by code_simp

theorem tick_batch_rejected_witness:
  "map_of (certreqs processingWorld) ''uuid-b'' = Some processingRequest
   \<and> cr_Status processingRequest = PROCESSING
   \<and> map_of (vasps processingWorld) (cr_Vasp processingRequest) = Some issuingVASP
   \<and> VerificationStatus issuingVASP = ISSUING_CERTIFICATE
   \<and> (\<exists>r' en vasp'.
           map_of (certreqs (fst (tickRequest exampleEnv exampleCA False processingWorld ''uuid-b'')))
             ''uuid-b'' = Some r'
         \<and> cr_Status r' = CR_REJECTED
         \<and> cr_AuditLog r' = cr_AuditLog processingRequest @ [en]
         \<and> crl_PreviousState en = PROCESSING \<and> crl_CurrentState en = CR_REJECTED
         \<and> crl_Source en = ''automated''
         \<and> map_of (vasps (fst (tickRequest exampleEnv exampleCA False processingWorld ''uuid-b'')))
             (cr_Vasp processingRequest) = Some vasp'
         \<and> VerificationStatus vasp' = ISSUING_CERTIFICATE
         \<and> GetAuditLog vasp' = GetAuditLog issuingVASP)"
proof -
  have d: "BatchDetail exampleCA (cr_BatchId processingRequest)
             = Inr (projr (BatchDetail exampleCA (cr_BatchId processingRequest)))"
    using processingWorld_facts by simp
  have t: "tickRequest exampleEnv exampleCA False processingWorld ''uuid-b''
             = (fst (tickRequest exampleEnv exampleCA False processingWorld ''uuid-b''),
                snd (tickRequest exampleEnv exampleCA False processingWorld ''uuid-b''))"
    by simp
  have i: "pi_Active \<lparr>pi_Active = 0, pi_Success = 0, pi_Failed = 1\<rparr> = 0
         \<and> pi_Success \<lparr>pi_Active = 0, pi_Success = 0, pi_Failed = 1\<rparr> = 0
         \<and> pi_Failed \<lparr>pi_Active = 0, pi_Success = 0, pi_Failed = 1\<rparr> > 0"
    by simp
  show ?thesis
    using tick_batch_rejected
            [OF _ _ _ _ i [THEN conjunct1] i [THEN conjunct2, THEN conjunct1]
                i [THEN conjunct2, THEN conjunct2] d _ _ _ _ t]
      processingWorld_facts
    by blast
qed

end
